theory Spec2Isabelle
  imports Complex_Main "HOL-Library.AList" "HOL-Library.Multiset"
begin

section \<open>Numbers, randomness and the data model\<close>

text \<open>
  The source is TypeScript; every price and volume is a JavaScript \<open>number\<close>. Prices and
  volumes are modelled as \<^typ>\<open>real\<close>: rounding is idealised away, and where the source would
  divide by zero (giving \<open>Infinity\<close> or \<open>NaN\<close>) the model either writes the resulting
  control flow out (cluster count, bucket index, the falsy test of the significance gate) or
  the theorems carry the side condition that excludes the division.

  Times are integer valued in the source (epoch seconds, interval lengths), except that
  \<open>parseInt\<close> yields \<open>NaN\<close> on a string without a leading integer and \<open>NaN\<close> then spreads
  through every sum and product. They are doubles all the same: an integer is held exactly
  only up to magnitude \<open>2^53\<close>, and a sum, difference or product of two such integers is
  exact only when its true value is again within that magnitude. \<open>jsint\<close> models them:
  \<open>Val i\<close> is the double that is exactly the integer \<open>i\<close>, \<open>NaN\<close> is \<open>NaN\<close>, and
  \<open>Inexact\<close> stands for a double the model does not follow (an integer beyond \<open>2^53\<close>
  after rounding, an infinity, or what arithmetic makes of those, \<open>NaN\<close> included). No
  theorem below concludes anything from an \<open>Inexact\<close> value.
\<close>

datatype jsint = Val int | NaN | Inexact

definition MAX_EXACT :: int where
  "MAX_EXACT = 2 ^ 53"

definition exact :: "int \<Rightarrow> jsint" where
  "exact i = (if \<bar>i\<bar> \<le> MAX_EXACT then Val i else Inexact)"

fun jmul :: "jsint \<Rightarrow> jsint \<Rightarrow> jsint" where
  "jmul (Val a) (Val b) = exact (a * b)"
| "jmul NaN _ = NaN"
| "jmul _ NaN = NaN"
| "jmul _ _ = Inexact"

fun jadd :: "jsint \<Rightarrow> jsint \<Rightarrow> jsint" where
  "jadd (Val a) (Val b) = exact (a + b)"
| "jadd NaN _ = NaN"
| "jadd _ NaN = NaN"
| "jadd _ _ = Inexact"

fun jsub :: "jsint \<Rightarrow> jsint \<Rightarrow> jsint" where
  "jsub (Val a) (Val b) = exact (a - b)"
| "jsub NaN _ = NaN"
| "jsub _ NaN = NaN"
| "jsub _ _ = Inexact"

text \<open>
  \<open>Math.random()\<close> is a global source of numbers in \<open>[0,1)\<close>. A run of the program sees
  one sequence of draws; the model takes that sequence as \<open>rnd\<close>, reads draw \<open>i\<close> as
  \<open>rnd i\<close>, and hands the rest of the sequence on with \<open>advance\<close>.
\<close>

type_synonym rng = "nat \<Rightarrow> real"

definition advance :: "nat \<Rightarrow> rng \<Rightarrow> rng" where
  "advance k rnd = (\<lambda>i. rnd (i + k))"

definition unit_draws :: "rng \<Rightarrow> bool" where
  "unit_draws rnd \<longleftrightarrow> (\<forall>i. 0 \<le> rnd i \<and> rnd i < 1)"

text \<open>The shared schema's records. Field names carry a prefix, since several records
  of the source share \<open>price\<close>, \<open>volume\<close> and so on.\<close>

record Cluster =
  cl_price :: real
  cl_volume :: real
  cl_buyVolume :: real
  cl_sellVolume :: real
  cl_delta :: real
  cl_aggression :: real

record CandleData =
  cd_time :: jsint
  cd_open :: real
  cd_high :: real
  cd_low :: real
  cd_close :: real
  cd_volume :: real
  cd_buyVolume :: real
  cd_sellVolume :: real
  cd_delta :: real
  cd_clusters :: "Cluster list"

record OrderBookLevel =
  lv_price :: real
  lv_volume :: real

record OrderBookData =
  ob_bids :: "OrderBookLevel list"
  ob_asks :: "OrderBookLevel list"
  ob_lastUpdate :: int

record ProfileLevel =
  pf_price :: real
  pf_volume :: real
  pf_buyVolume :: real
  pf_sellVolume :: real

section \<open>ClusterEngine\<close>

text \<open>The engine's mutable state: the two per-symbol caches. (The preload cache plays no
  part in the properties below and is left out.)\<close>

record ClusterEngine =
  atrCache :: "string \<rightharpoonup> real"
  lastProcessedPrice :: "string \<rightharpoonup> real"

definition PRICE_CHANGE_THRESHOLD :: real where
  "PRICE_CHANGE_THRESHOLD = 0.0005"

subsection \<open>calculateATR\<close>

definition trueRange :: "CandleData \<Rightarrow> CandleData \<Rightarrow> real" where
  "trueRange previous current =
     (let tr1 = cd_high current - cd_low current;
          tr2 = \<bar>cd_high current - cd_close previous\<bar>;
          tr3 = \<bar>cd_low current - cd_close previous\<bar>
      in max (max tr1 tr2) tr3)"

text \<open>The loop runs \<open>i\<close> from 1 while \<open>i < min(candles.length, period + 1)\<close>. With
  \<open>period = 0\<close> the source divides 0 by 0; every caller uses the default 14.\<close>

definition calculateATR :: "CandleData list \<Rightarrow> nat \<Rightarrow> real" where
  "calculateATR candles period =
     (if length candles < 2 then 0.001
      else let trueRanges =
                 map (\<lambda>i. trueRange (candles ! (i - 1)) (candles ! i))
                     [1 ..< min (length candles) (period + 1)]
           in sum_list trueRanges / real (length trueRanges))"

definition ATR_PERIOD :: nat where
  "ATR_PERIOD = 14"

subsection \<open>shouldRefreshClusters\<close>

text \<open>\<open>if (!lastPrice)\<close> is taken when the symbol has no entry and also when the entry is
  0 (falsy); the division below is therefore never by zero.\<close>

definition shouldRefreshClusters :: "ClusterEngine \<Rightarrow> string \<Rightarrow> real \<Rightarrow> bool \<times> ClusterEngine" where
  "shouldRefreshClusters e symbol currentPrice =
     (let record = e\<lparr>lastProcessedPrice := (lastProcessedPrice e)(symbol \<mapsto> currentPrice)\<rparr>
      in case lastProcessedPrice e symbol of
           None \<Rightarrow> (True, record)
         | Some lastPrice \<Rightarrow>
             if lastPrice = 0 then (True, record)
             else let priceChange = \<bar>currentPrice - lastPrice\<bar> / lastPrice
                  in if priceChange > PRICE_CHANGE_THRESHOLD then (True, record)
                     else (False, e))"

subsection \<open>generateAdaptiveClusters\<close>

text \<open>\<open>Math.max(5, Math.min(25, Math.floor(priceRange / baseClusterSize)))\<close>, as the number
  of turns the loop \<open>for (i = 0; i < optimalClusters; i++)\<close> takes. With a zero
  \<open>baseClusterSize\<close> the quotient is \<open>+Infinity\<close> (25 turns), \<open>-Infinity\<close> (5 turns) or
  \<open>NaN\<close> (the loop test fails at once).\<close>

definition optimalClusters :: "real \<Rightarrow> real \<Rightarrow> nat" where
  "optimalClusters priceRange baseClusterSize =
     (if baseClusterSize = 0
      then (if priceRange > 0 then 25 else if priceRange < 0 then 5 else 0)
      else nat (max 5 (min 25 \<lfloor>priceRange / baseClusterSize\<rfloor>)))"

text \<open>The body of the loop for index \<open>i\<close>; it takes draws \<open>2 i\<close> and \<open>2 i + 1\<close>.\<close>

definition adaptiveCluster ::
  "real \<Rightarrow> real \<Rightarrow> real \<Rightarrow> real \<Rightarrow> real \<Rightarrow> nat \<Rightarrow> rng \<Rightarrow> nat \<Rightarrow> Cluster" where
  "adaptiveCluster low high totalVolume totalBuyVolume currentPrice n rnd i =
     (let priceRange = high - low;
          step = priceRange / real n;
          price = low + step * real i + step / 2;
          distanceFromCurrent = \<bar>price - currentPrice\<bar>;
          distanceFromMiddle = \<bar>price - (high + low) / 2\<bar>;
          currentPriceWeight = 1 / (1 + distanceFromCurrent / currentPrice);
          middleWeight = 1 - distanceFromMiddle / (priceRange / 2);
          importance = currentPriceWeight * 0.6 + middleWeight * 0.4;
          volumeMultiplier = importance * (0.7 + rnd (2 * i) * 0.6);
          volume = (totalVolume / real n) * volumeMultiplier;
          baseRatio = totalBuyVolume / totalVolume;
          pricePosition = (price - low) / priceRange;
          positionBias = (if pricePosition < 0.5 then (1 - pricePosition) * 0.2
                          else - pricePosition * 0.2);
          buyRatio = max 0.1 (min 0.9 (baseRatio + positionBias + (rnd (2 * i + 1) - 0.5) * 0.1));
          buyVolume = volume * buyRatio;
          sellVolume = volume - buyVolume;
          delta = buyVolume - sellVolume;
          aggression = (if volume > 0 then \<bar>delta\<bar> / volume else 0)
      in \<lparr>cl_price = price, cl_volume = volume, cl_buyVolume = buyVolume,
          cl_sellVolume = sellVolume, cl_delta = delta, cl_aggression = aggression\<rparr>)"

text \<open>\<open>clusters.sort((a, b) => b.volume - a.volume)\<close>: a stable sort by descending volume.\<close>

definition generateAdaptiveClusters ::
  "real \<Rightarrow> real \<Rightarrow> real \<Rightarrow> real \<Rightarrow> real \<Rightarrow> real \<Rightarrow> real \<Rightarrow> rng \<Rightarrow> Cluster list" where
  "generateAdaptiveClusters low high totalVolume totalBuyVolume totalSellVolume atr currentPrice rnd =
     (let baseClusterSize = atr * 0.5;
          priceRange = high - low;
          n = optimalClusters priceRange baseClusterSize;
          clusters = map (adaptiveCluster low high totalVolume totalBuyVolume currentPrice n rnd) [0 ..< n]
      in sort_key (\<lambda>c. - cl_volume c) clusters)"

subsection \<open>generateEnhancedCandle\<close>

text \<open>Seven draws for the candle itself, then two per cluster.\<close>

definition generateEnhancedCandle ::
  "jsint \<Rightarrow> real \<Rightarrow> string \<Rightarrow> CandleData list \<Rightarrow> rng \<Rightarrow> CandleData \<times> rng" where
  "generateEnhancedCandle time startPrice interval historicalCandles rnd =
     (let atr = calculateATR historicalCandles ATR_PERIOD;
          volatility = max 0.005 (atr / startPrice * 2);
          trend = (rnd 0 - 0.5) * 0.005;
          openPrice = startPrice;
          priceChange = startPrice * (trend + (rnd 1 - 0.5) * volatility);
          closePrice = max (openPrice + priceChange) 1;
          atrMultiplier = 0.5 + rnd 2;
          wickRange = atr * atrMultiplier;
          high = max openPrice closePrice + rnd 3 * wickRange;
          low = min openPrice closePrice - rnd 4 * wickRange;
          baseVolume = 50 + rnd 5 * 150;
          volatilityMultiplier = 1 + \<bar>priceChange / startPrice\<bar> * 20;
          volume = baseVolume * volatilityMultiplier;
          isGreen = closePrice > openPrice;
          buyRatio = (if isGreen then 0.55 + rnd 6 * 0.25 else 0.25 + rnd 6 * 0.3);
          buyVolume = volume * buyRatio;
          sellVolume = volume - buyVolume;
          delta = buyVolume - sellVolume;
          clusters = generateAdaptiveClusters low high volume buyVolume sellVolume atr closePrice
                       (advance 7 rnd)
      in (\<lparr>cd_time = time, cd_open = openPrice, cd_high = high, cd_low = low,
           cd_close = closePrice, cd_volume = volume, cd_buyVolume = buyVolume,
           cd_sellVolume = sellVolume, cd_delta = delta, cd_clusters = clusters\<rparr>,
          advance (7 + 2 * length clusters) rnd))"

subsection \<open>filterDepth\<close>

text \<open>The third parameter is optional in the source (\<open>rangePercent: number = 2\<close>);
  \<open>None\<close> is the call that omits it.\<close>

definition filterDepth :: "OrderBookData \<Rightarrow> real \<Rightarrow> real option \<Rightarrow> OrderBookData" where
  "filterDepth orderBook centerPrice rangePercentArg =
     (let rangePercent = (case rangePercentArg of None \<Rightarrow> 2 | Some r \<Rightarrow> r);
          minPrice = centerPrice * (1 - rangePercent / 100);
          maxPrice = centerPrice * (1 + rangePercent / 100);
          filteredBids =
            take 50 (sort_key (\<lambda>l. - lv_price l)
              (filter (\<lambda>level. lv_price level \<ge> minPrice \<and> lv_price level \<le> centerPrice)
                 (ob_bids orderBook)));
          filteredAsks =
            take 50 (sort_key lv_price
              (filter (\<lambda>level. lv_price level \<le> maxPrice \<and> lv_price level \<ge> centerPrice)
                 (ob_asks orderBook)))
      in \<lparr>ob_bids = filteredBids, ob_asks = filteredAsks,
          ob_lastUpdate = ob_lastUpdate orderBook\<rparr>)"

subsection \<open>updateATRCache, getCachedATR\<close>

definition updateATRCache :: "ClusterEngine \<Rightarrow> string \<Rightarrow> CandleData list \<Rightarrow> ClusterEngine" where
  "updateATRCache e symbol candles =
     e\<lparr>atrCache := (atrCache e)(symbol \<mapsto> calculateATR candles ATR_PERIOD)\<rparr>"

definition getCachedATR :: "ClusterEngine \<Rightarrow> string \<Rightarrow> real" where
  "getCachedATR e symbol =
     (case atrCache e symbol of None \<Rightarrow> 0.001 | Some a \<Rightarrow> if a = 0 then 0.001 else a)"

subsection \<open>generateVolumeProfile\<close>

text \<open>\<open>Math.min(...xs)\<close> and \<open>Math.max(...xs)\<close> of a non-empty array.\<close>

definition minOf :: "real list \<Rightarrow> real" where
  "minOf xs = fold min (tl xs) (hd xs)"

definition maxOf :: "real list \<Rightarrow> real" where
  "maxOf xs = fold max (tl xs) (hd xs)"

text \<open>The bucket a cluster is added to, if any: \<open>Math.floor((price - minPrice) / priceStep)\<close>
  under the guard \<open>levelIndex >= 0 && levelIndex < priceLevels\<close>. With \<open>priceStep = 0\<close> the
  quotient is infinite or \<open>NaN\<close> and the guard fails.\<close>

definition levelIndex :: "real \<Rightarrow> real \<Rightarrow> nat \<Rightarrow> Cluster \<Rightarrow> nat option" where
  "levelIndex minPrice priceStep priceLevels cluster =
     (if priceStep = 0 then None
      else let idx = \<lfloor>(cl_price cluster - minPrice) / priceStep\<rfloor>
           in if idx \<ge> 0 \<and> idx < int priceLevels then Some (nat idx) else None)"

definition addCluster ::
  "real \<Rightarrow> real \<Rightarrow> nat \<Rightarrow> ProfileLevel list \<Rightarrow> Cluster \<Rightarrow> ProfileLevel list" where
  "addCluster minPrice priceStep priceLevels profile cluster =
     (case levelIndex minPrice priceStep priceLevels cluster of
        None \<Rightarrow> profile
      | Some i \<Rightarrow>
          profile[i := (profile ! i)
            \<lparr>pf_volume := pf_volume (profile ! i) + cl_volume cluster,
             pf_buyVolume := pf_buyVolume (profile ! i) + cl_buyVolume cluster,
             pf_sellVolume := pf_sellVolume (profile ! i) + cl_sellVolume cluster\<rparr>])"

text \<open>A candle without clusters (\<open>candle.clusters?.forEach\<close>) is a candle with an empty
  cluster list.\<close>

definition generateVolumeProfile :: "CandleData list \<Rightarrow> nat \<Rightarrow> ProfileLevel list" where
  "generateVolumeProfile candles priceLevels =
     (if candles = [] then []
      else let minPrice = minOf (map cd_low candles);
               maxPrice = maxOf (map cd_high candles);
               priceStep = (maxPrice - minPrice) / real priceLevels;
               empty = map (\<lambda>i. \<lparr>pf_price = minPrice + priceStep * real i + priceStep / 2,
                                   pf_volume = 0, pf_buyVolume = 0, pf_sellVolume = 0\<rparr>)
                           [0 ..< priceLevels];
               profile = foldl (\<lambda>p candle. foldl (addCluster minPrice priceStep priceLevels) p
                                               (cd_clusters candle))
                               empty candles
           in filter (\<lambda>level. pf_volume level > 0) profile)"

section \<open>TestDataGenerator\<close>

record TestDataGenerator =
  currentPrice :: real
  currentTime :: jsint
  priceHistory :: "real list"
  clusterEngine :: ClusterEngine
  historicalCandles :: "CandleData list"

text \<open>The constructor; \<open>now\<close> is \<open>Math.floor(Date.now() / 1000)\<close>.\<close>

definition newTestDataGenerator :: "real \<Rightarrow> int \<Rightarrow> TestDataGenerator" where
  "newTestDataGenerator initialPrice now =
     \<lparr>currentPrice = initialPrice, currentTime = Val now,
      priceHistory = replicate 100 initialPrice,
      clusterEngine = \<lparr>atrCache = Map.empty, lastProcessedPrice = Map.empty\<rparr>,
      historicalCandles = []\<rparr>"

subsection \<open>getIntervalInSeconds\<close>

text \<open>\<open>parseInt(s)\<close> without a radix: leading white space is skipped, a sign is read, a
  \<open>0x\<close> prefix selects base 16, and the longest run of digits is the value; no digit at all
  gives \<open>NaN\<close>. The value is a double: beyond \<open>2^53\<close> it is rounded (\<open>Inexact\<close>).\<close>

definition isWhiteSpace :: "char \<Rightarrow> bool" where
  "isWhiteSpace c \<longleftrightarrow> of_char c \<in> {9, 10, 11, 12, 13, 32 :: nat}"

definition digitOf :: "nat \<Rightarrow> char \<Rightarrow> nat option" where
  "digitOf radix c =
     (let n = (of_char c :: nat);
          d = (if 48 \<le> n \<and> n \<le> 57 then Some (n - 48)
               else if 97 \<le> n \<and> n \<le> 122 then Some (n - 87)
               else if 65 \<le> n \<and> n \<le> 90 then Some (n - 55)
               else None)
      in case d of None \<Rightarrow> None | Some v \<Rightarrow> if v < radix then Some v else None)"

fun parseDigits :: "nat \<Rightarrow> string \<Rightarrow> nat option \<Rightarrow> nat option" where
  "parseDigits radix [] acc = acc"
| "parseDigits radix (c # cs) acc =
     (case digitOf radix c of
        None \<Rightarrow> acc
      | Some d \<Rightarrow> parseDigits radix cs (Some (radix * (case acc of None \<Rightarrow> 0 | Some a \<Rightarrow> a) + d)))"

definition parseInt :: "string \<Rightarrow> jsint" where
  "parseInt s =
     (let t = dropWhile isWhiteSpace s;
          sign = (if take 1 t = ''-'' then - 1 else 1 :: int);
          u = (if take 1 t = ''-'' \<or> take 1 t = ''+'' then drop 1 t else t);
          hex = (take 2 u = ''0x'' \<or> take 2 u = ''0X'');
          digits = (if hex then parseDigits 16 (drop 2 u) None else parseDigits 10 u None)
      in case digits of None \<Rightarrow> NaN | Some n \<Rightarrow> exact (sign * int n))"

text \<open>\<open>interval.slice(-1)\<close> is the last character, or the empty string.\<close>

definition getIntervalInSeconds :: "string \<Rightarrow> jsint" where
  "getIntervalInSeconds interval =
     (let v = parseInt interval;
          unit = (if interval = [] then [] else [last interval])
      in if unit = ''s'' then v
         else if unit = ''m'' then jmul v (Val 60)
         else if unit = ''h'' then jmul v (Val 3600)
         else if unit = ''d'' then jmul v (Val 86400)
         else if unit = ''w'' then jmul v (Val 604800)
         else if unit = ''M'' then jmul v (Val 2629746)
         else Val 60)"

subsection \<open>generateSingleCandle, generateHistoricalCandles\<close>

definition generateSingleCandle ::
  "jsint \<Rightarrow> real \<Rightarrow> string \<Rightarrow> TestDataGenerator \<Rightarrow> rng \<Rightarrow> CandleData \<times> TestDataGenerator \<times> rng" where
  "generateSingleCandle time startPrice interval g rnd =
     (let (candle, rnd') = generateEnhancedCandle time startPrice interval (historicalCandles g) rnd;
          pushed = historicalCandles g @ [candle];
          kept = (if length pushed > 100 then tl pushed else pushed)
      in (candle, g\<lparr>historicalCandles := kept\<rparr>, rnd'))"

text \<open>The \<open>for\<close> loop of the backfill, by the number of turns still to take; the source's
  parameter \<open>count\<close> is \<open>cnt\<close> here.\<close>

fun historicalLoop ::
  "nat \<Rightarrow> string \<Rightarrow> jsint \<Rightarrow> real \<Rightarrow> CandleData list \<Rightarrow> TestDataGenerator \<Rightarrow> rng \<Rightarrow>
   jsint \<times> real \<times> CandleData list \<times> TestDataGenerator \<times> rng" where
  "historicalLoop 0 interval time price candles g rnd = (time, price, candles, g, rnd)"
| "historicalLoop (Suc k) interval time price candles g rnd =
     (let (candle, g', rnd') = generateSingleCandle time price interval g rnd
      in historicalLoop k interval (jadd time (getIntervalInSeconds interval)) (cd_close candle)
           (candles @ [candle]) g' rnd')"

definition generateHistoricalCandles ::
  "nat \<Rightarrow> string \<Rightarrow> TestDataGenerator \<Rightarrow> rng \<Rightarrow> CandleData list \<times> TestDataGenerator \<times> rng" where
  "generateHistoricalCandles cnt interval g rnd =
     (let time0 = jsub (currentTime g) (jmul (exact (int cnt)) (getIntervalInSeconds interval));
          price0 = currentPrice g * (0.95 + rnd 0 * 0.1);
          (time, price, candles, g', rnd') =
             historicalLoop cnt interval time0 price0 [] g (advance 1 rnd)
      in (candles, g'\<lparr>currentTime := time, currentPrice := price\<rparr>, rnd'))"

subsection \<open>generateOrderBook\<close>

text \<open>\<open>now\<close> is \<open>Date.now()\<close>. The bids take draws \<open>0 .. depth - 1\<close>, the asks the next
  \<open>depth\<close> draws. The generator always passes 1.5 to the depth filter.\<close>

definition generateOrderBook ::
  "nat \<Rightarrow> bool \<Rightarrow> int \<Rightarrow> TestDataGenerator \<Rightarrow> rng \<Rightarrow> OrderBookData \<times> rng" where
  "generateOrderBook depth applyDepthFilter now g rnd =
     (let spread = currentPrice g * 0.0001;
          bidPrice = currentPrice g - spread / 2;
          askPrice = currentPrice g + spread / 2;
          bids = map (\<lambda>i. \<lparr>lv_price = bidPrice - real i * spread * 0.1,
                            lv_volume = (10 + rnd i * 50) * (1 - real i * 0.05)\<rparr>) [0 ..< depth];
          asks = map (\<lambda>i. \<lparr>lv_price = askPrice + real i * spread * 0.1,
                            lv_volume = (10 + rnd (depth + i) * 50) * (1 - real i * 0.05)\<rparr>)
                     [0 ..< depth];
          orderBook = \<lparr>ob_bids = bids, ob_asks = asks, ob_lastUpdate = now\<rparr>
      in (if applyDepthFilter then filterDepth orderBook (currentPrice g) (Some 1.5) else orderBook,
          advance (2 * depth) rnd))"

subsection \<open>simulatePriceMovement, generateRealtimeUpdate\<close>

definition updateCurrentPrice :: "real \<Rightarrow> TestDataGenerator \<Rightarrow> TestDataGenerator" where
  "updateCurrentPrice newPrice g =
     (let pushed = priceHistory g @ [newPrice]
      in g\<lparr>currentPrice := newPrice,
           priceHistory := (if length pushed > 1000 then tl pushed else pushed)\<rparr>)"

text \<open>\<open>priceHistory.slice(-20)\<close> is the last 20 entries (all of them when there are fewer);
  the sum is divided by 20 whatever their number.\<close>

definition simulatePriceMovement :: "TestDataGenerator \<Rightarrow> rng \<Rightarrow> real \<times> TestDataGenerator \<times> rng" where
  "simulatePriceMovement g rnd =
     (let volatility = 0.001;
          meanReversion = 0.1;
          recent = drop (length (priceHistory g) - 20) (priceHistory g);
          recentAverage = sum_list recent / 20;
          meanReversionForce = (recentAverage - currentPrice g) / currentPrice g * meanReversion;
          randomWalk = (rnd 0 - 0.5) * volatility;
          priceChange = meanReversionForce + randomWalk;
          newPrice = max (currentPrice g * (1 + priceChange)) 1
      in (newPrice, updateCurrentPrice newPrice (g\<lparr>currentPrice := newPrice\<rparr>), advance 1 rnd))"

definition generateRealtimeUpdate ::
  "string \<Rightarrow> TestDataGenerator \<Rightarrow> rng \<Rightarrow> CandleData option \<times> TestDataGenerator \<times> rng" where
  "generateRealtimeUpdate interval g rnd =
     (let (newPrice, g1, rnd1) = simulatePriceMovement g rnd;
          (significant, engine) = shouldRefreshClusters (clusterEngine g1) ''BTCUSDT'' newPrice;
          g2 = g1\<lparr>clusterEngine := engine\<rparr>
      in if \<not> significant then (None, g2, rnd1)
         else let (candle, g3, rnd3) = generateSingleCandle (currentTime g2) newPrice interval g2 rnd1;
                  g4 = g3\<lparr>clusterEngine :=
                          updateATRCache (clusterEngine g3) ''BTCUSDT'' (historicalCandles g3)\<rparr>
              in (Some candle, g4, rnd3))"

section \<open>TradingDataManager\<close>

text \<open>
  A connection (a \<open>WebSocket\<close> object) is an identifier. A \<open>Set\<close> is the list of its members
  in insertion order, a \<open>Map\<close> the list of its entries in insertion order. The Node runtime's
  table of live interval timers is part of the state: \<open>setInterval\<close> adds a fresh handle with
  the subscription key whose loop it drives, \<open>clearInterval\<close> removes it. A handle that is in
  \<open>activeTimers\<close> but no longer in \<open>updateIntervals\<close> can never be cleared.

  The generators kept per symbol are not part of this record; the tick below takes and returns
  the generator it works on.
\<close>

type_synonym ws = nat

record TradingDataManager =
  connections :: "ws list"
  subscriptions :: "(string \<times> ws list) list"
  updateIntervals :: "(string \<times> nat) list"
  activeTimers :: "(nat \<times> string) list"
  nextTimer :: nat

definition newTradingDataManager :: TradingDataManager where
  "newTradingDataManager =
     \<lparr>connections = [], subscriptions = [], updateIntervals = [], activeTimers = [], nextTimer = 0\<rparr>"

definition setAdd :: "'a \<Rightarrow> 'a list \<Rightarrow> 'a list" where
  "setAdd x xs = (if x \<in> set xs then xs else xs @ [x])"

definition setDelete :: "'a \<Rightarrow> 'a list \<Rightarrow> 'a list" where
  "setDelete x xs = removeAll x xs"

definition subscriptionKey :: "string \<Rightarrow> string \<Rightarrow> string" where
  "subscriptionKey symbol interval = symbol @ ''_'' @ interval"

definition addConnection :: "ws \<Rightarrow> TradingDataManager \<Rightarrow> TradingDataManager" where
  "addConnection w h = h\<lparr>connections := setAdd w (connections h)\<rparr>"

definition stopDataStream :: "string \<Rightarrow> TradingDataManager \<Rightarrow> TradingDataManager" where
  "stopDataStream key h =
     (let h1 = h\<lparr>subscriptions := AList.delete key (subscriptions h)\<rparr>
      in case map_of (updateIntervals h1) key of
           None \<Rightarrow> h1
         | Some timer \<Rightarrow>
             h1\<lparr>activeTimers := filter (\<lambda>(t, k). t \<noteq> timer) (activeTimers h1),
                updateIntervals := AList.delete key (updateIntervals h1)\<rparr>)"

text \<open>One turn of the \<open>forEach\<close> in \<open>removeConnection\<close>, for the entry under \<open>key\<close>.\<close>

definition dropFrom :: "ws \<Rightarrow> TradingDataManager \<Rightarrow> string \<Rightarrow> TradingDataManager" where
  "dropFrom w h key =
     (case map_of (subscriptions h) key of
        None \<Rightarrow> h
      | Some clients \<Rightarrow>
          (let clients' = setDelete w clients;
               h1 = h\<lparr>subscriptions := AList.update key clients' (subscriptions h)\<rparr>
           in if length clients' = 0 then stopDataStream key h1 else h1))"

definition removeConnection :: "ws \<Rightarrow> TradingDataManager \<Rightarrow> TradingDataManager" where
  "removeConnection w h =
     (let h1 = h\<lparr>connections := setDelete w (connections h)\<rparr>
      in foldl (dropFrom w) h1 (map fst (subscriptions h1)))"

text \<open>
  \<open>startDataStream\<close> is an \<open>async\<close> function in two parts. The first part runs inside the
  subscribe call, up to the first \<open>await\<close> of a seed write, and changes nothing in this
  record. The second part, \<open>scheduleLoop\<close>, runs once the 50 awaited seed writes have all
  succeeded: it calls \<open>setInterval\<close> and stores the handle. When a write fails the promise is
  rejected and the second part never runs. Other events of the manager (a
  \<open>removeConnection\<close>, another subscribe) can run between the two parts.

  \<open>registerSubscriber\<close> is the registry update of \<open>subscribeToSymbol\<close>, with the answer to
  \<open>size === 1\<close>. \<open>subscribeToSymbol\<close> and \<open>startDataStream\<close> below are the schedule in which
  nothing runs between the two parts; \<open>seeded\<close> says whether the seed writes succeeded.
\<close>

definition scheduleLoop :: "string \<Rightarrow> string \<Rightarrow> TradingDataManager \<Rightarrow> TradingDataManager" where
  "scheduleLoop symbol interval h =
     (let key = subscriptionKey symbol interval
      in h\<lparr>activeTimers := activeTimers h @ [(nextTimer h, key)],
           updateIntervals := AList.update key (nextTimer h) (updateIntervals h),
           nextTimer := nextTimer h + 1\<rparr>)"

definition startDataStream :: "bool \<Rightarrow> string \<Rightarrow> string \<Rightarrow> TradingDataManager \<Rightarrow> TradingDataManager" where
  "startDataStream seeded symbol interval h =
     (if \<not> seeded then h else scheduleLoop symbol interval h)"

definition registerSubscriber ::
  "string \<Rightarrow> string \<Rightarrow> ws \<Rightarrow> TradingDataManager \<Rightarrow> TradingDataManager \<times> bool" where
  "registerSubscriber symbol interval w h =
     (let key = subscriptionKey symbol interval;
          clients = (case map_of (subscriptions h) key of None \<Rightarrow> [] | Some cs \<Rightarrow> cs);
          clients' = setAdd w clients
      in (h\<lparr>subscriptions := AList.update key clients' (subscriptions h)\<rparr>,
          length clients' = 1))"

definition subscribeToSymbol ::
  "bool \<Rightarrow> string \<Rightarrow> string \<Rightarrow> ws \<Rightarrow> TradingDataManager \<Rightarrow> TradingDataManager" where
  "subscribeToSymbol seeded symbol interval w h =
     (let (h1, first) = registerSubscriber symbol interval w h
      in if first then startDataStream seeded symbol interval h1 else h1)"

text \<open>The loops scheduled for a key, and the timers no entry of \<open>updateIntervals\<close> refers to.\<close>

definition loopsFor :: "string \<Rightarrow> TradingDataManager \<Rightarrow> nat list" where
  "loopsFor key h = map fst (filter (\<lambda>(t, k). k = key) (activeTimers h))"

definition orphanedTimers :: "TradingDataManager \<Rightarrow> nat list" where
  "orphanedTimers h =
     map fst (filter (\<lambda>(t, k). map_of (updateIntervals h) k \<noteq> Some t) (activeTimers h))"

subsection \<open>The update tick\<close>

text \<open>
  The persistence adapter is external: \<open>storage\<close> says for each write whether it succeeds
  (\<open>False\<close>: it throws). \<open>isOpen\<close> is \<open>client.readyState === WebSocket.OPEN\<close>. A tick's
  outcome lists the frames sent with their recipients, the writes that were made, and what
  \<open>console.error\<close> logged. The frame type has the two update frames and the \<open>error\<close>
  frame that other paths of the server send to a client.
\<close>

datatype storageWrite = SaveCandle string string CandleData | SaveOrderBook string OrderBookData

datatype wsFrame =
    candle_update string string CandleData
  | orderbook_update string OrderBookData
  | error_frame string

record TickOutcome =
  sent :: "(ws \<times> wsFrame) list"
  written :: "storageWrite list"
  logged :: "string list"

definition broadcastToSubscribers ::
  "TradingDataManager \<Rightarrow> (ws \<Rightarrow> bool) \<Rightarrow> string \<Rightarrow> wsFrame \<Rightarrow> (ws \<times> wsFrame) list" where
  "broadcastToSubscribers h isOpen key message =
     (case map_of (subscriptions h) key of
        None \<Rightarrow> []
      | Some clients \<Rightarrow> map (\<lambda>client. (client, message)) (filter isOpen clients))"

definition updateTick ::
  "TradingDataManager \<Rightarrow> (ws \<Rightarrow> bool) \<Rightarrow> (storageWrite \<Rightarrow> bool) \<Rightarrow> int \<Rightarrow> string \<Rightarrow> string \<Rightarrow>
   TestDataGenerator \<Rightarrow> rng \<Rightarrow> TickOutcome \<times> TestDataGenerator \<times> rng" where
  "updateTick h isOpen storage now symbol interval g rnd =
     (let key = subscriptionKey symbol interval;
          nothing = \<lparr>sent = [], written = [], logged = []\<rparr>
      in if map_of (subscriptions h) key = None then (nothing, g, rnd)
         else case generateRealtimeUpdate interval g rnd of
           (None, g1, rnd1) \<Rightarrow> (nothing, g1, rnd1)
         | (Some candleUpdate, g1, rnd1) \<Rightarrow>
             if \<not> storage (SaveCandle symbol interval candleUpdate)
             then (\<lparr>sent = [], written = [], logged = [symbol]\<rparr>, g1, rnd1)
             else let (orderBookData, rnd2) = generateOrderBook 50 True now g1 rnd1
                  in if \<not> storage (SaveOrderBook symbol orderBookData)
                     then (\<lparr>sent = [], written = [SaveCandle symbol interval candleUpdate],
                            logged = [symbol]\<rparr>, g1, rnd2)
                     else (\<lparr>sent = broadcastToSubscribers h isOpen key
                                     (candle_update symbol interval candleUpdate) @
                                   broadcastToSubscribers h isOpen key
                                     (orderbook_update symbol orderBookData),
                            written = [SaveCandle symbol interval candleUpdate,
                                       SaveOrderBook symbol orderBookData],
                            logged = []\<rparr>, g1, rnd2))"

section \<open>Reference definitions and concrete inputs\<close>

text \<open>Consecutive candle pairs \<open>(previous, current)\<close> of a list, oldest pair first, and the
  mean true range of a list of pairs.\<close>

definition candlePairs :: "CandleData list \<Rightarrow> (CandleData \<times> CandleData) list" where
  "candlePairs candles = zip candles (tl candles)"

definition averageTrueRange :: "(CandleData \<times> CandleData) list \<Rightarrow> real" where
  "averageTrueRange pairs =
     sum_list (map (\<lambda>(previous, current). trueRange previous current) pairs) / real (length pairs)"

text \<open>The ATR as the specification words it: the mean over up to \<open>period\<close> of the most
  recent pairs, that is, the last ones of the list.\<close>

definition computeATR_spec :: "CandleData list \<Rightarrow> nat \<Rightarrow> real" where
  "computeATR_spec candles period =
     (if length candles < 2 then 0.001
      else averageTrueRange (drop (length (candlePairs candles) - period) (candlePairs candles)))"

definition flatCandle :: "real \<Rightarrow> CandleData" where
  "flatCandle h = \<lparr>cd_time = Val 0, cd_open = 0, cd_high = h, cd_low = 0, cd_close = 0,
     cd_volume = 0, cd_buyVolume = 0, cd_sellVolume = 0, cd_delta = 0, cd_clusters = []\<rparr>"

text \<open>Fifteen candles of range 1 followed by one of range 29.\<close>

definition sixteenCandles :: "CandleData list" where
  "sixteenCandles = replicate 15 (flatCandle 1) @ [flatCandle 29]"

definition seenEngine :: ClusterEngine where
  "seenEngine = \<lparr>atrCache = Map.empty, lastProcessedPrice = [''BTCUSDT'' \<mapsto> 100]\<rparr>"

definition zeroEngine :: ClusterEngine where
  "zeroEngine = \<lparr>atrCache = Map.empty, lastProcessedPrice = [''BTCUSDT'' \<mapsto> 0]\<rparr>"

definition wideBook :: OrderBookData where
  "wideBook = \<lparr>ob_bids = [\<lparr>lv_price = 98.2, lv_volume = 1\<rparr>],
               ob_asks = [\<lparr>lv_price = 101.8, lv_volume = 1\<rparr>], ob_lastUpdate = 0\<rparr>"

definition freshGenerator :: TestDataGenerator where
  "freshGenerator = newTestDataGenerator 67500 1000000"

definition evenDraws :: rng where
  "evenDraws = (\<lambda>_. 1 / 2)"

definition oneSubscriber :: TradingDataManager where
  "oneSubscriber = subscribeToSymbol True ''BTCUSDT'' ''1m'' 1 (addConnection 1 newTradingDataManager)"

definition failingStorage :: "storageWrite \<Rightarrow> bool" where
  "failingStorage = (\<lambda>_. False)"

definition allOpen :: "ws \<Rightarrow> bool" where
  "allOpen = (\<lambda>_. True)"

text \<open>A candle over \<open>[0, 50]\<close> with one cluster at its high and one inside.\<close>

definition edgeCandle :: CandleData where
  "edgeCandle = \<lparr>cd_time = Val 0, cd_open = 0, cd_high = 50, cd_low = 0, cd_close = 0,
     cd_volume = 17, cd_buyVolume = 10, cd_sellVolume = 7, cd_delta = 3,
     cd_clusters = [\<lparr>cl_price = 50, cl_volume = 10, cl_buyVolume = 5, cl_sellVolume = 5,
                      cl_delta = 0, cl_aggression = 0\<rparr>,
                    \<lparr>cl_price = 12, cl_volume = 7, cl_buyVolume = 5, cl_sellVolume = 2,
                      cl_delta = 3, cl_aggression = 3 / 7\<rparr>]\<rparr>"

text \<open>The same candle with both clusters inside the range.\<close>

definition innerCandle :: CandleData where
  "innerCandle = \<lparr>cd_time = Val 0, cd_open = 0, cd_high = 50, cd_low = 0, cd_close = 0,
     cd_volume = 17, cd_buyVolume = 10, cd_sellVolume = 7, cd_delta = 3,
     cd_clusters = [\<lparr>cl_price = 30, cl_volume = 10, cl_buyVolume = 5, cl_sellVolume = 5,
                      cl_delta = 0, cl_aggression = 0\<rparr>,
                    \<lparr>cl_price = 12, cl_volume = 7, cl_buyVolume = 5, cl_sellVolume = 2,
                      cl_delta = 3, cl_aggression = 3 / 7\<rparr>]\<rparr>"

definition workingStorage :: "storageWrite \<Rightarrow> bool" where
  "workingStorage = (\<lambda>_. True)"

text \<open>The clusters whose bucket index is \<open>i\<close>, the bucket they make, and the clusters whose
  index lies in \<open>[0, priceLevels)\<close> at all.\<close>

definition bucketClusters :: "real \<Rightarrow> real \<Rightarrow> nat \<Rightarrow> Cluster list \<Rightarrow> Cluster list" where
  "bucketClusters minPrice priceStep i clusters =
     filter (\<lambda>c. priceStep \<noteq> 0 \<and> \<lfloor>(cl_price c - minPrice) / priceStep\<rfloor> = int i) clusters"

definition bucketLevel :: "real \<Rightarrow> real \<Rightarrow> Cluster list \<Rightarrow> nat \<Rightarrow> ProfileLevel" where
  "bucketLevel minPrice priceStep clusters i =
     \<lparr>pf_price = minPrice + priceStep * real i + priceStep / 2,
      pf_volume = sum_list (map cl_volume (bucketClusters minPrice priceStep i clusters)),
      pf_buyVolume = sum_list (map cl_buyVolume (bucketClusters minPrice priceStep i clusters)),
      pf_sellVolume = sum_list (map cl_sellVolume (bucketClusters minPrice priceStep i clusters))\<rparr>"

definition accumulatedClusters :: "real \<Rightarrow> real \<Rightarrow> nat \<Rightarrow> Cluster list \<Rightarrow> Cluster list" where
  "accumulatedClusters minPrice priceStep priceLevels clusters =
     filter (\<lambda>c. priceStep \<noteq> 0
                 \<and> 0 \<le> \<lfloor>(cl_price c - minPrice) / priceStep\<rfloor>
                 \<and> \<lfloor>(cl_price c - minPrice) / priceStep\<rfloor> < int priceLevels) clusters"

text \<open>The price level of cluster \<open>i\<close> of \<open>n\<close>, its importance (closeness to the current
  price with weight 0.6, closeness to the middle of the range with weight 0.4) and the random
  multiplier of its share.\<close>

definition clusterPrice :: "real \<Rightarrow> real \<Rightarrow> nat \<Rightarrow> nat \<Rightarrow> real" where
  "clusterPrice low high n i = low + (high - low) / real n * real i + (high - low) / real n / 2"

definition clusterImportance :: "real \<Rightarrow> real \<Rightarrow> real \<Rightarrow> nat \<Rightarrow> nat \<Rightarrow> real" where
  "clusterImportance low high cur n i =
     1 / (1 + \<bar>clusterPrice low high n i - cur\<bar> / cur) * 0.6
     + (1 - \<bar>clusterPrice low high n i - (high + low) / 2\<bar> / ((high - low) / 2)) * 0.4"

definition allocationMultiplier :: "rng \<Rightarrow> nat \<Rightarrow> real" where
  "allocationMultiplier rnd i = 0.7 + rnd (2 * i) * 0.6"

definition zeroDraws :: rng where
  "zeroDraws = (\<lambda>_. 0)"

section \<open>The significance gate\<close>

text \<open>
  C2. The first call of the gate for a symbol without a recorded price returns true and
  records the price. With a recorded price \<open>P\<close> and a new price \<open>p\<close>, the gate returns false
  and leaves the cache as it is when \<open>|p - P| / P \<le> 0.0005\<close>, and returns true and records
  \<open>p\<close> when \<open>|p - P| / P > 0.0005\<close>. A recorded price of 0 is falsy in the source and is
  treated as no record (the quotient would be infinite there): the gate returns true and
  records \<open>p\<close>.
\<close>

theorem shouldRefreshClusters_gate:
  "(lastProcessedPrice e symbol = None \<longrightarrow>
      shouldRefreshClusters e symbol p
        = (True, e\<lparr>lastProcessedPrice := (lastProcessedPrice e)(symbol \<mapsto> p)\<rparr>))
   \<and> (lastProcessedPrice e symbol = Some P \<and> P \<noteq> 0 \<and> \<bar>p - P\<bar> / P \<le> 0.0005 \<longrightarrow>
      shouldRefreshClusters e symbol p = (False, e))
   \<and> (lastProcessedPrice e symbol = Some P \<and> P \<noteq> 0 \<and> \<bar>p - P\<bar> / P > 0.0005 \<longrightarrow>
      shouldRefreshClusters e symbol p
        = (True, e\<lparr>lastProcessedPrice := (lastProcessedPrice e)(symbol \<mapsto> p)\<rparr>))
   \<and> (lastProcessedPrice e symbol = Some 0 \<longrightarrow>
      shouldRefreshClusters e symbol p
        = (True, e\<lparr>lastProcessedPrice := (lastProcessedPrice e)(symbol \<mapsto> p)\<rparr>))"
  by (simp add: shouldRefreshClusters_def PRICE_CHANGE_THRESHOLD_def Let_def)

theorem shouldRefreshClusters_gate_witness:
  "shouldRefreshClusters seenEngine ''ETHUSDT'' 5
     = (True, seenEngine\<lparr>lastProcessedPrice := (lastProcessedPrice seenEngine)(''ETHUSDT'' \<mapsto> 5)\<rparr>)
   \<and> shouldRefreshClusters seenEngine ''BTCUSDT'' 100.05 = (False, seenEngine)
   \<and> shouldRefreshClusters seenEngine ''BTCUSDT'' 100.06
     = (True, seenEngine\<lparr>lastProcessedPrice :=
                (lastProcessedPrice seenEngine)(''BTCUSDT'' \<mapsto> 100.06)\<rparr>)
   \<and> shouldRefreshClusters zeroEngine ''BTCUSDT'' 7
     = (True, zeroEngine\<lparr>lastProcessedPrice := (lastProcessedPrice zeroEngine)(''BTCUSDT'' \<mapsto> 7)\<rparr>)"
proof -
  have a: "lastProcessedPrice seenEngine ''ETHUSDT'' = None"
    and b: "lastProcessedPrice seenEngine ''BTCUSDT'' = Some 100"
    and z: "lastProcessedPrice zeroEngine ''BTCUSDT'' = Some 0"
    by (simp_all add: seenEngine_def zeroEngine_def)
  have c: "\<bar>100.05 - 100\<bar> / (100::real) \<le> 0.0005"
    and d: "\<bar>100.06 - 100\<bar> / (100::real) > 0.0005"
    by simp_all
  show ?thesis
    using shouldRefreshClusters_gate [of seenEngine "''ETHUSDT''" 5 100]
      shouldRefreshClusters_gate [of seenEngine "''BTCUSDT''" "100.05" 100]
      shouldRefreshClusters_gate [of seenEngine "''BTCUSDT''" "100.06" 100]
      shouldRefreshClusters_gate [of zeroEngine "''BTCUSDT''" 7 0] a b c d z
    by simp
qed

section \<open>The average true range\<close>

lemma true_ranges_as_pairs:
  "map (\<lambda>i. trueRange (candles ! (i - 1)) (candles ! i)) [1 ..< min (length candles) (period + 1)]
   = map (\<lambda>(previous, current). trueRange previous current) (take period (candlePairs candles))"
proof (rule nth_equalityI)
  show "length (map (\<lambda>i. trueRange (candles ! (i - 1)) (candles ! i))
                  [1 ..< min (length candles) (period + 1)])
      = length (map (\<lambda>(previous, current). trueRange previous current)
                  (take period (candlePairs candles)))"
    by (auto simp: candlePairs_def)
next
  fix i
  assume "i < length (map (\<lambda>i. trueRange (candles ! (i - 1)) (candles ! i))
                        [1 ..< min (length candles) (period + 1)])"
  then have i: "i < min (length candles) (period + 1) - 1" by simp
  then have "Suc i < length candles" "i < period" by auto
  then show "map (\<lambda>i. trueRange (candles ! (i - 1)) (candles ! i))
                 [1 ..< min (length candles) (period + 1)] ! i
      = map (\<lambda>(previous, current). trueRange previous current)
            (take period (candlePairs candles)) ! i"
    using i by (simp add: candlePairs_def nth_tl)
qed

text \<open>
  C5 (as amended). \<open>calculateATR\<close> returns 0.001 whenever fewer than 2 candles are given, and
  otherwise the average of the true ranges \<open>max(high - low, |high - prevClose|,
  |low - prevClose|)\<close> taken over the first \<open>min(period, n - 1)\<close> consecutive candle pairs of
  the list: the oldest pairs of a list in chronological order, not the most recent ones.
\<close>

theorem calculateATR_first_pairs:
  "calculateATR candles period =
     (if length candles < 2 then 0.001 else averageTrueRange (take period (candlePairs candles)))"
  unfolding calculateATR_def Let_def averageTrueRange_def true_ranges_as_pairs
  by (simp add: candlePairs_def)

text \<open>On sixteen candles whose last pair alone has true range 29, the source averages the
  first fourteen pairs (all of range 1); the mean over the fourteen most recent pairs is 3.\<close>

theorem calculateATR_not_most_recent:
  "calculateATR sixteenCandles 14 = 1 \<and> computeATR_spec sixteenCandles 14 = 3"
  by (simp add: calculateATR_def computeATR_spec_def sixteenCandles_def candlePairs_def
      averageTrueRange_def trueRange_def flatCandle_def eval_nat_numeral)

section \<open>The depth filter\<close>

lemma sorted_desc_sort_key:
  "sorted_wrt (\<lambda>a b. a \<ge> b) (map f (sort_key (\<lambda>x. - f x) xs))" for f :: "'a \<Rightarrow> real"
proof -
  have "sorted (map (\<lambda>x. - f x) (sort_key (\<lambda>x. - f x) xs))" by (rule sorted_sort_key)
  then show ?thesis by (simp add: sorted_wrt_map sorted_map)
qed

text \<open>
  C7 (as amended). \<open>filterDepth\<close>, whose \<open>rangePercent\<close> parameter defaults to 2 when omitted
  (the generator passes 1.5 itself), returns an order book in which every bid price lies in
  \<open>[centerPrice * (1 - r / 100), centerPrice]\<close> with bids in descending price order, every ask
  price lies in \<open>[centerPrice, centerPrice * (1 + r / 100)]\<close> with asks in ascending price
  order, and each side holds at most 50 levels.
\<close>

theorem filterDepth_bounds:
  "(let r = (case arg of None \<Rightarrow> 2 | Some x \<Rightarrow> x);
        result = filterDepth orderBook C arg
    in (\<forall>l \<in> set (ob_bids result). C * (1 - r / 100) \<le> lv_price l \<and> lv_price l \<le> C)
       \<and> sorted_wrt (\<lambda>a b. a \<ge> b) (map lv_price (ob_bids result))
       \<and> (\<forall>l \<in> set (ob_asks result). C \<le> lv_price l \<and> lv_price l \<le> C * (1 + r / 100))
       \<and> sorted (map lv_price (ob_asks result))
       \<and> length (ob_bids result) \<le> 50 \<and> length (ob_asks result) \<le> 50)"
proof -
  define r where "r = (case arg of None \<Rightarrow> 2 | Some x \<Rightarrow> (x::real))"
  define bs where "bs = sort_key (\<lambda>l. - lv_price l)
    (filter (\<lambda>level. lv_price level \<ge> C * (1 - r / 100) \<and> lv_price level \<le> C) (ob_bids orderBook))"
  define as where "as = sort_key lv_price
    (filter (\<lambda>level. lv_price level \<le> C * (1 + r / 100) \<and> lv_price level \<ge> C) (ob_asks orderBook))"
  have res: "ob_bids (filterDepth orderBook C arg) = take 50 bs"
    "ob_asks (filterDepth orderBook C arg) = take 50 as"
    by (simp_all add: filterDepth_def Let_def r_def bs_def as_def)
  have b1: "\<forall>l \<in> set (take 50 bs). C * (1 - r / 100) \<le> lv_price l \<and> lv_price l \<le> C"
    using set_take_subset [of 50 bs] by (auto simp: bs_def)
  have a1: "\<forall>l \<in> set (take 50 as). C \<le> lv_price l \<and> lv_price l \<le> C * (1 + r / 100)"
    using set_take_subset [of 50 as] by (auto simp: as_def)
  have b2: "sorted_wrt (\<lambda>a b. a \<ge> b) (map lv_price (take 50 bs))"
    unfolding bs_def take_map [symmetric] by (intro sorted_wrt_take sorted_desc_sort_key)
  have a2: "sorted (map lv_price (take 50 as))"
    unfolding as_def take_map [symmetric] by (intro sorted_wrt_take sorted_sort_key)
  show ?thesis
    unfolding Let_def res r_def [symmetric] using b1 a1 b2 a2 by simp
qed

theorem filterDepth_bounds_witness:
  "list_all (\<lambda>l. 100 * (1 - 1.5 / 100) \<le> lv_price l \<and> lv_price l \<le> 100)
     (ob_bids (filterDepth wideBook 100 (Some 1.5)))
   \<and> list_all (\<lambda>l. 100 * (1 - 2 / 100) \<le> lv_price l \<and> lv_price l \<le> 100)
     (ob_bids (filterDepth wideBook 100 None))
   \<and> length (ob_asks (filterDepth wideBook 100 None)) \<le> 50"
  using filterDepth_bounds [of "Some 1.5" wideBook 100] filterDepth_bounds [of None wideBook 100]
  by (simp add: Let_def list_all_iff)

text \<open>A call that omits \<open>rangePercent\<close> keeps a bid at 98.2 around the centre 100, below the
  1.5 percent band's lower edge 98.5.\<close>

theorem filterDepth_default_range:
  "ob_bids (filterDepth wideBook 100 None) = [\<lparr>lv_price = 98.2, lv_volume = 1\<rparr>]
   \<and> (98.2 :: real) < 100 * (1 - 1.5 / 100)"
  by (simp add: filterDepth_def wideBook_def)

section \<open>The synthesised candle\<close>

lemma trueRange_nonneg: "0 \<le> trueRange previous current"
  by (simp add: trueRange_def Let_def le_max_iff_disj)

lemma calculateATR_nonneg: "0 \<le> calculateATR candles period"
  by (auto simp: calculateATR_def Let_def trueRange_nonneg intro!: divide_nonneg_nonneg sum_list_nonneg)

text \<open>
  C3. Every candle returned by \<open>generateEnhancedCandle\<close>, for every start price above 0,
  every list of historical candles and every sequence of draws from \<open>[0,1)\<close>, satisfies
  \<open>low \<le> min(open, close)\<close>, \<open>high \<ge> max(open, close)\<close>, \<open>close \<ge> 1\<close>,
  \<open>volume = buyVolume + sellVolume\<close> and \<open>delta = buyVolume - sellVolume\<close>. (Over the reals the
  volume equation is exact; the floating tolerance of the specification covers the rounding of
  \<open>volume - buyVolume\<close>.)
\<close>

theorem generateEnhancedCandle_invariants:
  assumes "startPrice > 0" and "unit_draws rnd"
  shows "(let c = fst (generateEnhancedCandle time startPrice interval history rnd)
          in cd_low c \<le> min (cd_open c) (cd_close c)
             \<and> cd_high c \<ge> max (cd_open c) (cd_close c)
             \<and> cd_close c \<ge> 1
             \<and> cd_volume c = cd_buyVolume c + cd_sellVolume c
             \<and> cd_delta c = cd_buyVolume c - cd_sellVolume c)"
proof -
  define c where "c = fst (generateEnhancedCandle time startPrice interval history rnd)"
  define atr where "atr = calculateATR history ATR_PERIOD"
  have atr: "0 \<le> atr" unfolding atr_def by (rule calculateATR_nonneg)
  have r: "0 \<le> rnd 2" "0 \<le> rnd 3" "0 \<le> rnd 4"
    using assms(2) by (simp_all add: unit_draws_def)
  have wick: "0 \<le> atr * (0.5 + rnd 2)" using atr r by simp
  have up: "0 \<le> rnd 3 * (atr * (0.5 + rnd 2))" and down: "0 \<le> rnd 4 * (atr * (0.5 + rnd 2))"
    using wick r by simp_all
  have low: "cd_low c = min (cd_open c) (cd_close c) - rnd 4 * (atr * (0.5 + rnd 2))"
    unfolding c_def atr_def generateEnhancedCandle_def Let_def fst_conv CandleData.select_convs ..
  have high: "cd_high c = max (cd_open c) (cd_close c) + rnd 3 * (atr * (0.5 + rnd 2))"
    unfolding c_def atr_def generateEnhancedCandle_def Let_def fst_conv CandleData.select_convs ..
  have "\<exists>x. cd_close c = max x 1"
    unfolding c_def generateEnhancedCandle_def Let_def fst_conv CandleData.select_convs by (rule exI) (rule refl)
  then have close: "1 \<le> cd_close c" by auto
  have sell: "cd_sellVolume c = cd_volume c - cd_buyVolume c"
    unfolding c_def generateEnhancedCandle_def Let_def fst_conv CandleData.select_convs ..
  have delta: "cd_delta c = cd_buyVolume c - cd_sellVolume c"
    unfolding c_def generateEnhancedCandle_def Let_def fst_conv CandleData.select_convs ..
  have "cd_low c \<le> min (cd_open c) (cd_close c)" using low down by linarith
  moreover have "cd_high c \<ge> max (cd_open c) (cd_close c)" using high up by linarith
  moreover have "cd_volume c = cd_buyVolume c + cd_sellVolume c" using sell by simp
  ultimately show ?thesis
    unfolding Let_def c_def [symmetric] using close delta by simp
qed

theorem generateEnhancedCandle_invariants_witness:
  "cd_low (fst (generateEnhancedCandle (Val 0) 100 ''1m'' [] evenDraws))
      \<le> min (cd_open (fst (generateEnhancedCandle (Val 0) 100 ''1m'' [] evenDraws)))
             (cd_close (fst (generateEnhancedCandle (Val 0) 100 ''1m'' [] evenDraws)))
   \<and> cd_close (fst (generateEnhancedCandle (Val 0) 100 ''1m'' [] evenDraws)) \<ge> 1"
proof -
  have a: "(100::real) > 0" by simp
  have b: "unit_draws evenDraws" by (simp add: unit_draws_def evenDraws_def)
  show ?thesis using generateEnhancedCandle_invariants [OF a b, of "Val 0" "''1m''" "[]"] by (simp add: Let_def)
qed

section \<open>The backfill and the time cursor\<close>

lemma exact_in_range: "\<bar>i\<bar> \<le> MAX_EXACT \<Longrightarrow> exact i = Val i"
  by (simp add: exact_def)

lemma jmul_NaN [simp]: "jmul x NaN = NaN"
  by (cases x) simp_all

lemma jsub_NaN [simp]: "jsub x NaN = NaN"
  by (cases x) simp_all

lemma walk_back_bound:
  fixes T s :: int
  assumes "\<bar>T\<bar> + int (Suc k) * \<bar>s\<bar> \<le> M"
  shows "\<bar>T - int k * s\<bar> \<le> M" and "\<bar>T\<bar> + int k * \<bar>s\<bar> \<le> M"
proof -
  have "\<bar>T - int k * s\<bar> \<le> \<bar>T\<bar> + \<bar>int k * s\<bar>" by (rule abs_triangle_ineq4)
  also have "\<dots> = \<bar>T\<bar> + int k * \<bar>s\<bar>" by (simp add: abs_mult)
  also have "\<dots> \<le> \<bar>T\<bar> + int (Suc k) * \<bar>s\<bar>" by (simp add: algebra_simps)
  finally show "\<bar>T - int k * s\<bar> \<le> M" using assms by simp
  have "\<bar>T\<bar> + int k * \<bar>s\<bar> \<le> \<bar>T\<bar> + int (Suc k) * \<bar>s\<bar>" by (simp add: algebra_simps)
  then show "\<bar>T\<bar> + int k * \<bar>s\<bar> \<le> M" using assms by simp
qed

text \<open>The loop started \<open>k\<close> steps before \<open>T\<close> ends at \<open>T\<close>, every sum on the way being exact.\<close>

lemma historicalLoop_time:
  assumes "getIntervalInSeconds interval = Val s"
    and "\<bar>T\<bar> + int k * \<bar>s\<bar> \<le> MAX_EXACT"
  shows "fst (historicalLoop k interval (Val (T - int k * s)) price candles g rnd) = Val T"
  using assms(2)
proof (induction k arbitrary: price candles g rnd)
  case 0
  then show ?case by simp
next
  case (Suc k)
  have step: "T - int (Suc k) * s + s = T - int k * s" by (simp add: algebra_simps)
  have "jadd (Val (T - int (Suc k) * s)) (Val s) = exact (T - int (Suc k) * s + s)"
    by (simp only: jadd.simps)
  also have "\<dots> = exact (T - int k * s)" by (simp only: step)
  also have "\<dots> = Val (T - int k * s)"
    by (rule exact_in_range) (rule walk_back_bound(1) [OF Suc.prems])
  finally have "jadd (Val (T - int (Suc k) * s)) (Val s) = Val (T - int k * s)" .
  then show ?case
    using Suc.IH [OF walk_back_bound(2) [OF Suc.prems]] assms(1)
    by (simp add: Let_def case_prod_beta)
qed

lemma historicalLoop_time_NaN:
  "fst (historicalLoop k interval NaN price candles g rnd) = NaN"
  by (induction k arbitrary: price candles g rnd) (simp_all add: Let_def split: prod.splits)

lemma backfill_time_NaN:
  assumes "getIntervalInSeconds interval = NaN"
  shows "currentTime (fst (snd (generateHistoricalCandles cnt interval g rnd))) = NaN"
proof -
  have "jsub (currentTime g) (jmul (exact (int cnt)) (getIntervalInSeconds interval)) = NaN"
    using assms by simp
  then show ?thesis
    using historicalLoop_time_NaN [of cnt interval "currentPrice g * (0.95 + rnd 0 * 0.1)" "[]" g "advance 1 rnd"]
    by (simp add: generateHistoricalCandles_def Let_def case_prod_beta)
qed

text \<open>
  C10 (as amended). For every count and every interval string from which
  \<open>getIntervalInSeconds\<close> obtains a number \<open>s\<close> (a leading integer before a known unit, or an
  unknown unit, which falls back to 60 seconds), and as long as the count and
  \<open>|currentTime| + count * |s|\<close> stay within \<open>2^53\<close>, the range in which the source's doubles
  hold integers exactly, \<open>generateHistoricalCandles\<close> leaves the generator's \<open>currentTime\<close>
  exactly equal to its value before the call: the first candle is placed \<open>count\<close> steps in
  the past and the cursor walks forward to the original time.
\<close>

theorem generateHistoricalCandles_keeps_time:
  assumes "getIntervalInSeconds interval = Val s" and "currentTime g = Val T"
    and "int cnt \<le> MAX_EXACT" and "\<bar>T\<bar> + int cnt * \<bar>s\<bar> \<le> MAX_EXACT"
  shows "currentTime (fst (snd (generateHistoricalCandles cnt interval g rnd))) = Val T"
proof -
  have c: "exact (int cnt) = Val (int cnt)" using assms(3) by (simp add: exact_def)
  have "\<bar>int cnt * s\<bar> \<le> \<bar>T\<bar> + int cnt * \<bar>s\<bar>" by (simp add: abs_mult)
  then have m: "exact (int cnt * s) = Val (int cnt * s)"
    using assms(4) by (simp add: exact_def)
  have "\<bar>T - int cnt * s\<bar> \<le> \<bar>T\<bar> + \<bar>int cnt * s\<bar>" by (rule abs_triangle_ineq4)
  then have "\<bar>T - int cnt * s\<bar> \<le> MAX_EXACT" using assms(4) by (simp add: abs_mult)
  then have d: "exact (T - int cnt * s) = Val (T - int cnt * s)" by (simp add: exact_def)
  have start: "jsub (currentTime g) (jmul (exact (int cnt)) (getIntervalInSeconds interval))
      = Val (T - int cnt * s)"
    by (simp add: assms(1,2) c m d)
  show ?thesis
    using historicalLoop_time [OF assms(1,4), of "currentPrice g * (0.95 + rnd 0 * 0.1)" "[]" g
        "advance 1 rnd"]
    by (simp add: generateHistoricalCandles_def Let_def case_prod_beta start)
qed

lemma interval_1m: "getIntervalInSeconds ''1m'' = Val 60"
  by (simp add: getIntervalInSeconds_def parseInt_def isWhiteSpace_def digitOf_def Let_def
      exact_def MAX_EXACT_def)

lemma interval_m: "getIntervalInSeconds ''m'' = NaN"
  by (simp add: getIntervalInSeconds_def parseInt_def isWhiteSpace_def digitOf_def Let_def)

theorem generateHistoricalCandles_keeps_time_witness:
  "currentTime (fst (snd (generateHistoricalCandles 50 ''1m'' freshGenerator evenDraws))) = Val 1000000"
proof -
  have t: "currentTime freshGenerator = Val 1000000"
    by (simp add: freshGenerator_def newTestDataGenerator_def)
  have c: "int 50 \<le> MAX_EXACT" and b: "\<bar>1000000\<bar> + int 50 * \<bar>60\<bar> \<le> MAX_EXACT"
    by (simp_all add: MAX_EXACT_def)
  show ?thesis
    using generateHistoricalCandles_keeps_time [OF interval_1m t c b] by simp
qed

text \<open>With the interval \<open>m\<close> (a known unit without a number) \<open>parseInt\<close> gives \<open>NaN\<close>, the
  step is \<open>NaN\<close>, and the cursor is \<open>NaN\<close> after the call.\<close>

theorem generateHistoricalCandles_time_NaN:
  "currentTime freshGenerator = Val 1000000
   \<and> currentTime (fst (snd (generateHistoricalCandles 50 ''m'' freshGenerator evenDraws))) = NaN"
  using backfill_time_NaN [OF interval_m]
  by (simp add: freshGenerator_def newTestDataGenerator_def)

section \<open>The realtime tick of the generator\<close>

lemma simulate_frame:
  "clusterEngine (fst (snd (simulatePriceMovement g rnd))) = clusterEngine g"
  "historicalCandles (fst (snd (simulatePriceMovement g rnd))) = historicalCandles g"
  "currentTime (fst (snd (simulatePriceMovement g rnd))) = currentTime g"
  "currentPrice (fst (snd (simulatePriceMovement g rnd))) = fst (simulatePriceMovement g rnd)"
  "snd (snd (simulatePriceMovement g rnd)) = advance 1 rnd"
  by (simp_all add: simulatePriceMovement_def updateCurrentPrice_def Let_def)

lemma simulate_floor: "1 \<le> fst (simulatePriceMovement g rnd)"
  by (simp add: simulatePriceMovement_def Let_def)

lemma singleCandle_frame:
  "currentPrice (fst (snd (generateSingleCandle t p i g rnd))) = currentPrice g"
  "priceHistory (fst (snd (generateSingleCandle t p i g rnd))) = priceHistory g"
  "clusterEngine (fst (snd (generateSingleCandle t p i g rnd))) = clusterEngine g"
  "currentTime (fst (snd (generateSingleCandle t p i g rnd))) = currentTime g"
  by (simp_all add: generateSingleCandle_def Let_def case_prod_beta)

lemma gate_rejects_keeps: "\<not> fst (shouldRefreshClusters e symbol p) \<Longrightarrow> snd (shouldRefreshClusters e symbol p) = e"
  by (auto simp: shouldRefreshClusters_def Let_def split: option.splits if_splits)

lemma gate_accepts_records:
  "fst (shouldRefreshClusters e symbol p) \<Longrightarrow>
   lastProcessedPrice (snd (shouldRefreshClusters e symbol p)) symbol = Some p
   \<and> atrCache (snd (shouldRefreshClusters e symbol p)) = atrCache e"
  by (auto simp: shouldRefreshClusters_def Let_def split: option.splits if_splits)

lemma realtime_none_iff:
  "(fst (generateRealtimeUpdate interval g rnd) = None)
   = (\<not> fst (shouldRefreshClusters (clusterEngine g) ''BTCUSDT'' (fst (simulatePriceMovement g rnd))))"
  by (simp add: generateRealtimeUpdate_def Let_def case_prod_beta simulate_frame)

lemma realtime_rejected:
  assumes "fst (generateRealtimeUpdate interval g rnd) = None"
  shows "snd (generateRealtimeUpdate interval g rnd) = snd (simulatePriceMovement g rnd)"
proof -
  have rej: "\<not> fst (shouldRefreshClusters (clusterEngine (fst (snd (simulatePriceMovement g rnd))))
      ''BTCUSDT'' (fst (simulatePriceMovement g rnd)))"
    using assms by (simp add: realtime_none_iff simulate_frame)
  show ?thesis
    using rej gate_rejects_keeps [OF rej]
    by (simp add: generateRealtimeUpdate_def Let_def case_prod_beta prod_eq_iff)
qed

lemma realtime_price:
  "currentPrice (fst (snd (generateRealtimeUpdate interval g rnd))) = fst (simulatePriceMovement g rnd)"
  by (simp add: generateRealtimeUpdate_def Let_def case_prod_beta simulate_frame singleCandle_frame)

lemma realtime_history:
  "priceHistory (fst (snd (generateRealtimeUpdate interval g rnd)))
   = priceHistory (fst (snd (simulatePriceMovement g rnd)))"
  by (simp add: generateRealtimeUpdate_def Let_def case_prod_beta simulate_frame singleCandle_frame)

lemma realtime_accepted_records:
  assumes "fst (generateRealtimeUpdate interval g rnd) \<noteq> None"
  shows "lastProcessedPrice (clusterEngine (fst (snd (generateRealtimeUpdate interval g rnd)))) ''BTCUSDT''
         = Some (fst (simulatePriceMovement g rnd))"
proof -
  have acc: "fst (shouldRefreshClusters (clusterEngine g) ''BTCUSDT'' (fst (simulatePriceMovement g rnd)))"
    using assms by (simp add: realtime_none_iff)
  show ?thesis
    using acc gate_accepts_records [OF acc]
    by (simp add: generateRealtimeUpdate_def Let_def case_prod_beta simulate_frame singleCandle_frame
        updateATRCache_def)
qed

lemma realtime_bootstrap:
  "lastProcessedPrice (clusterEngine g) ''BTCUSDT'' = None \<Longrightarrow>
   fst (generateRealtimeUpdate interval g rnd) \<noteq> None"
  by (simp add: realtime_none_iff shouldRefreshClusters_def)

text \<open>
  C8. \<open>generateRealtimeUpdate\<close> returns no candle exactly when the significance gate rejects
  the new price, and then the generator is left as the price update alone leaves it: the
  rolling candle window, the engine's caches (the ATR entry among them) and the time cursor are
  unchanged. In particular, on a generator whose gate has no recorded price, two ticks in
  succession whose second price differs from the first by less than 0.05 percent give a candle
  on the first tick and none on the second.
\<close>

theorem generateRealtimeUpdate_rejected_tick:
  "(fst (generateRealtimeUpdate interval g rnd) = None) =
     (\<not> fst (shouldRefreshClusters (clusterEngine g) ''BTCUSDT'' (fst (simulatePriceMovement g rnd))))
   \<and> (fst (generateRealtimeUpdate interval g rnd) = None \<longrightarrow>
        snd (generateRealtimeUpdate interval g rnd) = snd (simulatePriceMovement g rnd)
        \<and> historicalCandles (fst (snd (generateRealtimeUpdate interval g rnd))) = historicalCandles g
        \<and> clusterEngine (fst (snd (generateRealtimeUpdate interval g rnd))) = clusterEngine g
        \<and> currentTime (fst (snd (generateRealtimeUpdate interval g rnd))) = currentTime g)
   \<and> (lastProcessedPrice (clusterEngine g) ''BTCUSDT'' = None
        \<and> generateRealtimeUpdate interval g rnd = (c1, g1, rnd1)
        \<and> generateRealtimeUpdate interval g1 rnd1 = (c2, g2, rnd2)
        \<and> \<bar>currentPrice g2 - currentPrice g1\<bar> / currentPrice g1 < 0.0005 \<longrightarrow>
        c1 \<noteq> None \<and> c2 = None
        \<and> historicalCandles g2 = historicalCandles g1
        \<and> atrCache (clusterEngine g2) = atrCache (clusterEngine g1))"
proof (intro conjI impI)
  show "(fst (generateRealtimeUpdate interval g rnd) = None) =
     (\<not> fst (shouldRefreshClusters (clusterEngine g) ''BTCUSDT'' (fst (simulatePriceMovement g rnd))))"
    by (rule realtime_none_iff)
next
  assume none: "fst (generateRealtimeUpdate interval g rnd) = None"
  show a: "snd (generateRealtimeUpdate interval g rnd) = snd (simulatePriceMovement g rnd)"
    by (rule realtime_rejected [OF none])
  show "historicalCandles (fst (snd (generateRealtimeUpdate interval g rnd))) = historicalCandles g"
    "clusterEngine (fst (snd (generateRealtimeUpdate interval g rnd))) = clusterEngine g"
    "currentTime (fst (snd (generateRealtimeUpdate interval g rnd))) = currentTime g"
    by (simp_all add: a simulate_frame)
next
  assume h: "lastProcessedPrice (clusterEngine g) ''BTCUSDT'' = None
        \<and> generateRealtimeUpdate interval g rnd = (c1, g1, rnd1)
        \<and> generateRealtimeUpdate interval g1 rnd1 = (c2, g2, rnd2)
        \<and> \<bar>currentPrice g2 - currentPrice g1\<bar> / currentPrice g1 < 0.0005"
  then have t1: "generateRealtimeUpdate interval g rnd = (c1, g1, rnd1)"
    and t2: "generateRealtimeUpdate interval g1 rnd1 = (c2, g2, rnd2)"
    and near: "\<bar>currentPrice g2 - currentPrice g1\<bar> / currentPrice g1 < 0.0005"
    and fresh: "lastProcessedPrice (clusterEngine g) ''BTCUSDT'' = None"
    by simp_all
  have first: "fst (generateRealtimeUpdate interval g rnd) \<noteq> None"
    by (rule realtime_bootstrap [OF fresh])
  then show c1: "c1 \<noteq> None" using t1 by simp
  have p1: "currentPrice g1 = fst (simulatePriceMovement g rnd)"
    using realtime_price [of interval g rnd] t1 by simp
  have rec: "lastProcessedPrice (clusterEngine g1) ''BTCUSDT'' = Some (currentPrice g1)"
    using realtime_accepted_records [OF first] t1 p1 by simp
  have pos: "currentPrice g1 \<noteq> 0"
    using simulate_floor [of g rnd] p1 by simp
  have p2: "currentPrice g2 = fst (simulatePriceMovement g1 rnd1)"
    using realtime_price [of interval g1 rnd1] t2 by simp
  have "\<not> fst (shouldRefreshClusters (clusterEngine g1) ''BTCUSDT'' (fst (simulatePriceMovement g1 rnd1)))"
    using near rec pos unfolding p2 [symmetric]
    by (simp add: shouldRefreshClusters_def PRICE_CHANGE_THRESHOLD_def Let_def)
  then have second: "fst (generateRealtimeUpdate interval g1 rnd1) = None"
    by (simp add: realtime_none_iff)
  then show "c2 = None" using t2 by simp
  have "snd (generateRealtimeUpdate interval g1 rnd1) = snd (simulatePriceMovement g1 rnd1)"
    by (rule realtime_rejected [OF second])
  then have g2: "g2 = fst (snd (simulatePriceMovement g1 rnd1))"
    using t2 by (metis fst_conv snd_conv)
  show "historicalCandles g2 = historicalCandles g1"
    "atrCache (clusterEngine g2) = atrCache (clusterEngine g1)"
    by (simp_all add: g2 simulate_frame)
qed

lemma evenDraws_at: "evenDraws i = 1 / 2"
  by (simp add: evenDraws_def)

lemma advance_evenDraws: "advance k evenDraws = evenDraws"
  by (simp add: advance_def evenDraws_def)

lemma enhancedCandle_draws:
  "snd (generateEnhancedCandle t p i history rnd)
   = advance (7 + 2 * length (cd_clusters (fst (generateEnhancedCandle t p i history rnd)))) rnd"
  unfolding generateEnhancedCandle_def Let_def snd_conv fst_conv CandleData.select_convs ..

lemma singleCandle_draws: "\<exists>k. snd (snd (generateSingleCandle t p i g rnd)) = advance k rnd"
  unfolding generateSingleCandle_def Let_def case_prod_beta snd_conv
  by (rule exI) (rule enhancedCandle_draws)

lemma advance_advance: "advance k (advance j rnd) = advance (j + k) rnd"
  by (rule ext) (simp add: advance_def ac_simps)

lemma realtime_draws: "\<exists>k. snd (snd (generateRealtimeUpdate interval g rnd)) = advance k rnd"
proof (cases "fst (generateRealtimeUpdate interval g rnd) = None")
  case True
  then show ?thesis using realtime_rejected [OF True] by (auto simp: simulate_frame)
next
  case False
  then have acc: "fst (shouldRefreshClusters (clusterEngine g) ''BTCUSDT'' (fst (simulatePriceMovement g rnd)))"
    by (simp add: realtime_none_iff)
  obtain k where k: "snd (snd (generateSingleCandle (currentTime g) (fst (simulatePriceMovement g rnd)) interval
      ((fst (snd (simulatePriceMovement g rnd)))\<lparr>clusterEngine :=
         snd (shouldRefreshClusters (clusterEngine g) ''BTCUSDT'' (fst (simulatePriceMovement g rnd)))\<rparr>)
      (advance 1 rnd))) = advance k (advance 1 rnd)"
    using singleCandle_draws by blast
  show ?thesis
    using acc k
    by (auto simp: generateRealtimeUpdate_def Let_def case_prod_beta simulate_frame advance_advance)
qed

lemma realtime_evenDraws: "snd (snd (generateRealtimeUpdate interval g evenDraws)) = evenDraws"
  using realtime_draws [of interval g evenDraws] by (auto simp: advance_evenDraws)

lemma simulate_price:
  "fst (simulatePriceMovement g rnd) =
     max (currentPrice g *
            (1 + ((sum_list (drop (length (priceHistory g) - 20) (priceHistory g)) / 20 - currentPrice g)
                    / currentPrice g * 0.1 + (rnd 0 - 0.5) * 0.001))) 1"
  by (simp only: simulatePriceMovement_def Let_def fst_conv)

lemma simulate_history:
  "length (priceHistory g) < 1000 \<Longrightarrow>
   priceHistory (fst (snd (simulatePriceMovement g rnd))) = priceHistory g @ [fst (simulatePriceMovement g rnd)]"
  by (simp add: simulatePriceMovement_def updateCurrentPrice_def Let_def)

lemma fresh_first_price: "fst (simulatePriceMovement freshGenerator evenDraws) = 67500"
  by (simp add: simulate_price freshGenerator_def newTestDataGenerator_def evenDraws_at
      sum_list_replicate)

lemma fresh_history: "priceHistory freshGenerator = replicate 100 67500"
  by (simp add: freshGenerator_def newTestDataGenerator_def)

lemma fresh_first_tick:
  "currentPrice (fst (snd (generateRealtimeUpdate ''1m'' freshGenerator evenDraws))) = 67500"
  "priceHistory (fst (snd (generateRealtimeUpdate ''1m'' freshGenerator evenDraws))) = replicate 100 67500 @ [67500]"
  by (simp_all add: realtime_price realtime_history fresh_first_price simulate_history fresh_history)

lemma fresh_second_price:
  "currentPrice (fst (snd (generateRealtimeUpdate ''1m''
      (fst (snd (generateRealtimeUpdate ''1m'' freshGenerator evenDraws)))
      (snd (snd (generateRealtimeUpdate ''1m'' freshGenerator evenDraws)))))) = 67500"
proof -
  let ?g1 = "fst (snd (generateRealtimeUpdate ''1m'' freshGenerator evenDraws))"
  let ?r1 = "snd (snd (generateRealtimeUpdate ''1m'' freshGenerator evenDraws))"
  have r: "?r1 = evenDraws" by (rule realtime_evenDraws)
  have "currentPrice (fst (snd (generateRealtimeUpdate ''1m'' ?g1 ?r1)))
      = fst (simulatePriceMovement ?g1 ?r1)"
    by (rule realtime_price)
  also have "\<dots> = 67500"
    unfolding simulate_price fresh_first_tick r
    by (simp add: evenDraws_at sum_list_replicate)
  finally show ?thesis .
qed

theorem generateRealtimeUpdate_rejected_tick_witness:
  "fst (generateRealtimeUpdate ''1m'' freshGenerator evenDraws) \<noteq> None
   \<and> fst (generateRealtimeUpdate ''1m''
        (fst (snd (generateRealtimeUpdate ''1m'' freshGenerator evenDraws)))
        (snd (snd (generateRealtimeUpdate ''1m'' freshGenerator evenDraws)))) = None
   \<and> historicalCandles (fst (snd (generateRealtimeUpdate ''1m''
        (fst (snd (generateRealtimeUpdate ''1m'' freshGenerator evenDraws)))
        (snd (snd (generateRealtimeUpdate ''1m'' freshGenerator evenDraws))))))
      = historicalCandles (fst (snd (generateRealtimeUpdate ''1m'' freshGenerator evenDraws)))
   \<and> clusterEngine (fst (snd (generateRealtimeUpdate ''1m''
        (fst (snd (generateRealtimeUpdate ''1m'' freshGenerator evenDraws)))
        (snd (snd (generateRealtimeUpdate ''1m'' freshGenerator evenDraws))))))
      = clusterEngine (fst (snd (generateRealtimeUpdate ''1m'' freshGenerator evenDraws)))"
proof -
  let ?t1 = "generateRealtimeUpdate ''1m'' freshGenerator evenDraws"
  let ?t2 = "generateRealtimeUpdate ''1m'' (fst (snd ?t1)) (snd (snd ?t1))"
  have fresh: "lastProcessedPrice (clusterEngine freshGenerator) ''BTCUSDT'' = None"
    by (simp add: freshGenerator_def newTestDataGenerator_def)
  have e1: "?t1 = (fst ?t1, fst (snd ?t1), snd (snd ?t1))" by simp
  have e2: "?t2 = (fst ?t2, fst (snd ?t2), snd (snd ?t2))" by simp
  have near: "\<bar>currentPrice (fst (snd ?t2)) - currentPrice (fst (snd ?t1))\<bar>
      / currentPrice (fst (snd ?t1)) < 0.0005"
    by (simp add: fresh_second_price fresh_first_tick)
  have two: "fst ?t1 \<noteq> None \<and> fst ?t2 = None
      \<and> historicalCandles (fst (snd ?t2)) = historicalCandles (fst (snd ?t1))"
    using generateRealtimeUpdate_rejected_tick [of "''1m''" freshGenerator evenDraws
        "fst ?t1" "fst (snd ?t1)" "snd (snd ?t1)" "fst ?t2" "fst (snd ?t2)" "snd (snd ?t2)"]
      fresh e1 e2 near
    by blast
  then have none: "fst ?t2 = None" by simp
  have "clusterEngine (fst (snd ?t2)) = clusterEngine (fst (snd ?t1))"
    using generateRealtimeUpdate_rejected_tick [of "''1m''" "fst (snd ?t1)" "snd (snd ?t1)"] none
    by blast
  then show ?thesis using two by simp
qed

section \<open>The update tick of the manager\<close>

lemmas hub_defs = subscribeToSymbol_def registerSubscriber_def startDataStream_def
  scheduleLoop_def removeConnection_def dropFrom_def
  stopDataStream_def setAdd_def setDelete_def subscriptionKey_def newTradingDataManager_def
  addConnection_def loopsFor_def orphanedTimers_def

lemma updateTick_outcome:
  assumes "map_of (subscriptions h) (subscriptionKey symbol interval) = Some clients"
      and "generateRealtimeUpdate interval g rnd = (Some candle, g1, rnd1)"
      and "generateOrderBook 50 True now g1 rnd1 = (orderBook, rnd2)"
  shows "fst (updateTick h isOpen storage now symbol interval g rnd) =
     (if \<not> storage (SaveCandle symbol interval candle)
      then \<lparr>sent = [], written = [], logged = [symbol]\<rparr>
      else if \<not> storage (SaveOrderBook symbol orderBook)
      then \<lparr>sent = [], written = [SaveCandle symbol interval candle], logged = [symbol]\<rparr>
      else \<lparr>sent = map (\<lambda>client. (client, candle_update symbol interval candle)) (filter isOpen clients)
                   @ map (\<lambda>client. (client, orderbook_update symbol orderBook)) (filter isOpen clients),
            written = [SaveCandle symbol interval candle, SaveOrderBook symbol orderBook],
            logged = []\<rparr>)"
  using assms by (simp add: updateTick_def Let_def broadcastToSubscribers_def)

lemma oneSubscriber_clients:
  "map_of (subscriptions oneSubscriber) (subscriptionKey ''BTCUSDT'' ''1m'') = Some [1]"
  by (simp add: oneSubscriber_def hub_defs Let_def)

lemma fresh_tick_candle:
  "generateRealtimeUpdate ''1m'' freshGenerator evenDraws =
     (Some (the (fst (generateRealtimeUpdate ''1m'' freshGenerator evenDraws))),
      fst (snd (generateRealtimeUpdate ''1m'' freshGenerator evenDraws)),
      snd (snd (generateRealtimeUpdate ''1m'' freshGenerator evenDraws)))"
proof -
  have "fst (generateRealtimeUpdate ''1m'' freshGenerator evenDraws) \<noteq> None"
    by (rule realtime_bootstrap) (simp add: freshGenerator_def newTestDataGenerator_def)
  then show ?thesis by (simp add: prod_eq_iff)
qed

text \<open>
  C1 (as amended). When a tick for a subscribed key has produced a candle, the
  \<open>candle_update\<close> and \<open>orderbook_update\<close> frames are sent to the key's open subscribers
  exactly when both persistence writes succeed. If \<open>saveCandleData\<close> or
  \<open>saveOrderBookData\<close> fails, the tick ends in its \<open>catch\<close>: no frame of any kind is sent
  to any client, and the failure is logged once.
\<close>

theorem updateTick_write_failure:
  assumes "map_of (subscriptions h) (subscriptionKey symbol interval) = Some clients"
      and "generateRealtimeUpdate interval g rnd = (Some candle, g1, rnd1)"
      and "generateOrderBook 50 True now g1 rnd1 = (orderBook, rnd2)"
  shows "(storage (SaveCandle symbol interval candle) \<and> storage (SaveOrderBook symbol orderBook) \<longrightarrow>
            sent (fst (updateTick h isOpen storage now symbol interval g rnd))
              = map (\<lambda>client. (client, candle_update symbol interval candle)) (filter isOpen clients)
                @ map (\<lambda>client. (client, orderbook_update symbol orderBook)) (filter isOpen clients)
            \<and> logged (fst (updateTick h isOpen storage now symbol interval g rnd)) = [])
       \<and> (\<not> (storage (SaveCandle symbol interval candle) \<and> storage (SaveOrderBook symbol orderBook)) \<longrightarrow>
            sent (fst (updateTick h isOpen storage now symbol interval g rnd)) = []
            \<and> logged (fst (updateTick h isOpen storage now symbol interval g rnd)) = [symbol])"
  by (simp add: updateTick_outcome [OF assms])

theorem updateTick_write_failure_witness:
  "sent (fst (updateTick oneSubscriber allOpen failingStorage 0 ''BTCUSDT'' ''1m'' freshGenerator evenDraws)) = []
   \<and> logged (fst (updateTick oneSubscriber allOpen failingStorage 0 ''BTCUSDT'' ''1m'' freshGenerator evenDraws))
       = [''BTCUSDT'']
   \<and> map fst (sent (fst (updateTick oneSubscriber allOpen workingStorage 0 ''BTCUSDT'' ''1m''
                             freshGenerator evenDraws))) = [1, 1]
   \<and> logged (fst (updateTick oneSubscriber allOpen workingStorage 0 ''BTCUSDT'' ''1m''
                     freshGenerator evenDraws)) = []"
  using updateTick_write_failure [OF oneSubscriber_clients fresh_tick_candle surjective_pairing,
      of failingStorage 0 allOpen]
    updateTick_write_failure [OF oneSubscriber_clients fresh_tick_candle surjective_pairing,
      of workingStorage 0 allOpen]
  by (simp add: failingStorage_def workingStorage_def allOpen_def)

text \<open>A tick that produced a candle, for a key with one open subscriber, with a failing
  store: nothing is broadcast.\<close>

theorem updateTick_failure_blocks_broadcast:
  "fst (generateRealtimeUpdate ''1m'' freshGenerator evenDraws) \<noteq> None
   \<and> filter allOpen (the (map_of (subscriptions oneSubscriber) ''BTCUSDT_1m'')) = [1]
   \<and> fst (updateTick oneSubscriber allOpen failingStorage 0 ''BTCUSDT'' ''1m'' freshGenerator evenDraws)
       = \<lparr>sent = [], written = [], logged = [''BTCUSDT'']\<rparr>"
proof -
  have a: "fst (generateRealtimeUpdate ''1m'' freshGenerator evenDraws) \<noteq> None"
    by (rule realtime_bootstrap) (simp add: freshGenerator_def newTestDataGenerator_def)
  have b: "filter allOpen (the (map_of (subscriptions oneSubscriber) ''BTCUSDT_1m'')) = [1]"
    using oneSubscriber_clients by (simp add: subscriptionKey_def allOpen_def)
  have c: "fst (updateTick oneSubscriber allOpen failingStorage 0 ''BTCUSDT'' ''1m'' freshGenerator evenDraws)
       = \<lparr>sent = [], written = [], logged = [''BTCUSDT'']\<rparr>"
    using updateTick_outcome [OF oneSubscriber_clients fresh_tick_candle surjective_pairing, of allOpen failingStorage 0]
    by (simp add: failingStorage_def)
  show ?thesis using a b c by simp
qed

section \<open>Subscription lifecycle\<close>

text \<open>From a fresh manager, with the seed writes succeeding, a single subscription and no
  event between the subscription and the making of its timer: the
  first subscription starts one loop, removing the connection stops it and releases the
  handle, and a new subscription starts one fresh loop.\<close>

lemma lifecycle_once:
  "(let key = subscriptionKey symbol interval;
        h1 = subscribeToSymbol True symbol interval w newTradingDataManager;
        h2 = removeConnection w h1;
        h3 = subscribeToSymbol True symbol interval w h2
    in activeTimers h1 = [(0, key)] \<and> updateIntervals h1 = [(key, 0)]
       \<and> activeTimers h2 = [] \<and> updateIntervals h2 = [] \<and> subscriptions h2 = []
       \<and> activeTimers h3 = [(1, key)] \<and> updateIntervals h3 = [(key, 1)])"
  by (simp add: hub_defs Let_def)

text \<open>The schedule in which the connection closes while the seed writes are awaited: the
  timer is made after its subscription is gone. It runs for a key without subscribers, and the
  next subscription to the key starts a second loop and leaves this one without a handle.\<close>

lemma disconnect_while_seeding:
  "(let h1 = fst (registerSubscriber ''BTCUSDT'' ''1m'' 1 newTradingDataManager);
        h2 = removeConnection 1 h1;
        h3 = scheduleLoop ''BTCUSDT'' ''1m'' h2;
        h4 = subscribeToSymbol True ''BTCUSDT'' ''1m'' 2 h3
    in snd (registerSubscriber ''BTCUSDT'' ''1m'' 1 newTradingDataManager)
       \<and> subscriptions h3 = [] \<and> loopsFor ''BTCUSDT_1m'' h3 = [0]
       \<and> loopsFor ''BTCUSDT_1m'' h4 = [0, 1] \<and> orphanedTimers h4 = [0])"
  by (simp add: hub_defs Let_def)

text \<open>
  C9. The specification asks for one scheduled loop per subscribed key, stopped with its handle released
  when the last connection of the key is removed. The source does not keep it when a
  connection subscribes twice to the same key: it is still the only member of the key's set,
  so the test \<open>size === 1\<close> starts a second loop (two loops now run for the key) and
  overwrites the first handle in \<open>updateIntervals\<close>. Removing the connection then clears the
  second timer only: the first one stays scheduled with no subscriber and no handle left to
  clear it.
\<close>

theorem removeConnection_orphaned_timer:
  "(let h2 = subscribeToSymbol True ''BTCUSDT'' ''1m'' 1
               (subscribeToSymbol True ''BTCUSDT'' ''1m'' 1 newTradingDataManager);
        h3 = removeConnection 1 h2
    in subscriptions h2 = [(''BTCUSDT_1m'', [1])] \<and> loopsFor ''BTCUSDT_1m'' h2 = [0, 1]
       \<and> subscriptions h3 = [] \<and> updateIntervals h3 = []
       \<and> loopsFor ''BTCUSDT_1m'' h3 = [0] \<and> orphanedTimers h3 = [0])"
  by (simp add: hub_defs Let_def)


section \<open>The volume profile\<close>

lemma sum_list_update_real:
  "i < length xs \<Longrightarrow> sum_list (xs[i := y]) = sum_list xs - xs ! i + (y :: real)"
  by (induction xs arbitrary: i) (auto split: nat.splits)

lemma addCluster_length [simp]:
  "length (addCluster minPrice priceStep priceLevels profile cluster) = length profile"
  by (simp add: addCluster_def split: option.splits)

lemma levelIndex_bound:
  "levelIndex minPrice priceStep priceLevels cluster = Some i \<Longrightarrow> i < priceLevels"
  by (auto simp: levelIndex_def Let_def nat_less_iff split: if_splits)

lemma addCluster_sum:
  assumes "length profile = priceLevels"
  shows "sum_list (map pf_volume (addCluster minPrice priceStep priceLevels profile cluster))
       = sum_list (map pf_volume profile)
         + (if levelIndex minPrice priceStep priceLevels cluster = None then 0 else cl_volume cluster)"
proof (cases "levelIndex minPrice priceStep priceLevels cluster")
  case None
  then show ?thesis by (simp add: addCluster_def)
next
  case (Some i)
  then have i: "i < length profile" using levelIndex_bound assms by blast
  then show ?thesis
    using Some by (simp add: addCluster_def map_update sum_list_update_real)
qed

lemma addCluster_nonneg:
  assumes "\<forall>p \<in> set profile. 0 \<le> pf_volume p" and "0 \<le> cl_volume cluster"
    and "length profile = priceLevels"
  shows "\<forall>p \<in> set (addCluster minPrice priceStep priceLevels profile cluster). 0 \<le> pf_volume p"
proof (cases "levelIndex minPrice priceStep priceLevels cluster")
  case None
  then show ?thesis using assms by (simp add: addCluster_def)
next
  case (Some i)
  then have i: "i < length profile" using levelIndex_bound assms by blast
  then have "0 \<le> pf_volume (profile ! i)" using assms(1) by simp
  then show ?thesis
    using Some assms(1,2) set_update_subset_insert [of profile i]
    by (fastforce simp: addCluster_def)
qed

lemma accumulate_clusters:
  assumes "length profile = priceLevels"
    and "\<forall>p \<in> set profile. 0 \<le> pf_volume p"
    and "\<forall>c \<in> set clusters. 0 \<le> cl_volume c"
  shows "length (foldl (addCluster minPrice priceStep priceLevels) profile clusters) = priceLevels
     \<and> (\<forall>p \<in> set (foldl (addCluster minPrice priceStep priceLevels) profile clusters). 0 \<le> pf_volume p)
     \<and> sum_list (map pf_volume (foldl (addCluster minPrice priceStep priceLevels) profile clusters))
       = sum_list (map pf_volume profile)
         + sum_list (map cl_volume
             (filter (\<lambda>c. levelIndex minPrice priceStep priceLevels c \<noteq> None) clusters))"
  using assms
proof (induction clusters arbitrary: profile)
  case Nil
  then show ?case by simp
next
  case (Cons c cs)
  let ?p = "addCluster minPrice priceStep priceLevels profile c"
  have len: "length ?p = priceLevels" using Cons.prems(1) by simp
  have nonneg: "\<forall>p \<in> set ?p. 0 \<le> pf_volume p"
    using addCluster_nonneg [OF Cons.prems(2) _ Cons.prems(1), of c minPrice priceStep] Cons.prems(3)
    by simp
  have rest: "\<forall>c \<in> set cs. 0 \<le> cl_volume c" using Cons.prems(3) by simp
  show ?case
    using Cons.IH [OF len nonneg rest] addCluster_sum [OF Cons.prems(1), of minPrice priceStep c]
    by (simp split: if_splits)
qed

lemma accumulate_candles:
  assumes "length profile = priceLevels"
    and "\<forall>p \<in> set profile. 0 \<le> pf_volume p"
    and "\<forall>c \<in> set (concat (map cd_clusters candles)). 0 \<le> cl_volume c"
  shows "length (foldl (\<lambda>p candle. foldl (addCluster minPrice priceStep priceLevels) p (cd_clusters candle))
                   profile candles) = priceLevels
     \<and> (\<forall>p \<in> set (foldl (\<lambda>p candle. foldl (addCluster minPrice priceStep priceLevels) p (cd_clusters candle))
                   profile candles). 0 \<le> pf_volume p)
     \<and> sum_list (map pf_volume
          (foldl (\<lambda>p candle. foldl (addCluster minPrice priceStep priceLevels) p (cd_clusters candle))
                   profile candles))
       = sum_list (map pf_volume profile)
         + sum_list (map cl_volume
             (filter (\<lambda>c. levelIndex minPrice priceStep priceLevels c \<noteq> None)
                (concat (map cd_clusters candles))))"
  using assms
proof (induction candles arbitrary: profile)
  case Nil
  then show ?case by simp
next
  case (Cons k ks)
  let ?p = "foldl (addCluster minPrice priceStep priceLevels) profile (cd_clusters k)"
  have here: "\<forall>c \<in> set (cd_clusters k). 0 \<le> cl_volume c" using Cons.prems(3) by simp
  have rest: "\<forall>c \<in> set (concat (map cd_clusters ks)). 0 \<le> cl_volume c" using Cons.prems(3) by simp
  note step = accumulate_clusters [OF Cons.prems(1,2) here, of minPrice priceStep]
  from step have len: "length ?p = priceLevels" and nonneg: "\<forall>p \<in> set ?p. 0 \<le> pf_volume p"
    by simp_all
  show ?case
    using Cons.IH [OF len nonneg rest] step by simp
qed

lemma sum_positive_part:
  "\<forall>x \<in> set xs. 0 \<le> f x \<Longrightarrow>
   sum_list (map f (filter (\<lambda>x. f x > 0) xs)) = sum_list (map f xs)" for f :: "'a \<Rightarrow> real"
  by (induction xs) auto

lemma levelIndex_in_range:
  assumes "minPrice < maxPrice" and "priceLevels > 0"
    and "minPrice \<le> cl_price c" and "cl_price c < maxPrice"
  shows "levelIndex minPrice ((maxPrice - minPrice) / real priceLevels) priceLevels c \<noteq> None"
proof -
  let ?s = "(maxPrice - minPrice) / real priceLevels"
  have s: "0 < ?s" using assms by simp
  have lo: "0 \<le> (cl_price c - minPrice) / ?s"
    using s assms(3) by (intro divide_nonneg_pos) auto
  have q: "(cl_price c - minPrice) / (maxPrice - minPrice) < 1" using assms by simp
  have n: "0 < real priceLevels" using assms(2) by simp
  have "(cl_price c - minPrice) / ?s
      = real priceLevels * ((cl_price c - minPrice) / (maxPrice - minPrice))"
    by simp
  also have "\<dots> < real priceLevels * 1"
    using q n by (rule mult_strict_left_mono)
  finally have hi: "(cl_price c - minPrice) / ?s < real priceLevels" by simp
  have "\<lfloor>(cl_price c - minPrice) / ?s\<rfloor> < int priceLevels"
    using hi by (simp add: floor_less_iff)
  moreover have "0 \<le> \<lfloor>(cl_price c - minPrice) / ?s\<rfloor>" using lo by simp
  ultimately show ?thesis using assms(1,2) by (simp add: levelIndex_def Let_def)
qed

lemma profile_volume_sum:
  assumes "candles \<noteq> []"
    and "\<forall>c \<in> set (concat (map cd_clusters candles)). 0 \<le> cl_volume c"
  shows "(let minPrice = minOf (map cd_low candles);
              maxPrice = maxOf (map cd_high candles);
              priceStep = (maxPrice - minPrice) / real priceLevels;
              clusters = concat (map cd_clusters candles);
              result = generateVolumeProfile candles priceLevels
          in sum_list (map pf_volume result)
               = sum_list (map cl_volume
                   (filter (\<lambda>c. levelIndex minPrice priceStep priceLevels c \<noteq> None) clusters))
             \<and> (\<forall>level \<in> set result. pf_volume level > 0)
             \<and> (minPrice < maxPrice \<and> priceLevels > 0
                  \<and> (\<forall>c \<in> set clusters. minPrice \<le> cl_price c \<and> cl_price c < maxPrice)
                \<longrightarrow> sum_list (map pf_volume result) = sum_list (map cl_volume clusters)))"
proof -
  define minPrice where "minPrice = minOf (map cd_low candles)"
  define maxPrice where "maxPrice = maxOf (map cd_high candles)"
  define priceStep where "priceStep = (maxPrice - minPrice) / real priceLevels"
  define clusters where "clusters = concat (map cd_clusters candles)"
  define empty where "empty = map (\<lambda>i. \<lparr>pf_price = minPrice + priceStep * real i + priceStep / 2,
                                   pf_volume = 0, pf_buyVolume = 0, pf_sellVolume = 0\<rparr>)
                           [0 ..< priceLevels]"
  define profile where "profile = foldl (\<lambda>p candle. foldl (addCluster minPrice priceStep priceLevels) p
                                               (cd_clusters candle)) empty candles"
  have res: "generateVolumeProfile candles priceLevels = filter (\<lambda>level. pf_volume level > 0) profile"
    using assms(1)
    by (simp add: generateVolumeProfile_def Let_def minPrice_def maxPrice_def priceStep_def
        empty_def profile_def)
  have e1: "length empty = priceLevels" by (simp add: empty_def)
  have e2: "\<forall>p \<in> set empty. 0 \<le> pf_volume p" by (auto simp: empty_def)
  have e3: "sum_list (map pf_volume empty) = 0" by (simp add: empty_def comp_def)
  note acc = accumulate_candles [OF e1 e2 assms(2), of minPrice priceStep]
  have nonneg: "\<forall>p \<in> set profile. 0 \<le> pf_volume p" using acc by (simp add: profile_def)
  have total: "sum_list (map pf_volume profile)
      = sum_list (map cl_volume
          (filter (\<lambda>c. levelIndex minPrice priceStep priceLevels c \<noteq> None) clusters))"
    using acc e3 by (simp add: profile_def clusters_def)
  have sum: "sum_list (map pf_volume (generateVolumeProfile candles priceLevels))
      = sum_list (map cl_volume
          (filter (\<lambda>c. levelIndex minPrice priceStep priceLevels c \<noteq> None) clusters))"
    unfolding res using sum_positive_part [OF nonneg] total by simp
  have pos: "\<forall>level \<in> set (generateVolumeProfile candles priceLevels). pf_volume level > 0"
    unfolding res by simp
  have all: "sum_list (map pf_volume (generateVolumeProfile candles priceLevels))
      = sum_list (map cl_volume clusters)"
    if "minPrice < maxPrice" "priceLevels > 0"
      "\<forall>c \<in> set clusters. minPrice \<le> cl_price c \<and> cl_price c < maxPrice"
  proof -
    have "filter (\<lambda>c. levelIndex minPrice priceStep priceLevels c \<noteq> None) clusters = clusters"
      unfolding priceStep_def using that levelIndex_in_range [of minPrice maxPrice priceLevels]
      by (simp add: filter_id_conv)
    then show ?thesis using sum by simp
  qed
  show ?thesis
    unfolding Let_def minPrice_def [symmetric] maxPrice_def [symmetric]
      priceStep_def [symmetric] clusters_def [symmetric]
    using sum pos all by blast
qed

lemma foldl_clusters_concat:
  "foldl (\<lambda>p candle. foldl f p (cd_clusters candle)) a candles
   = foldl f a (concat (map cd_clusters candles))"
  by (induction candles arbitrary: a) simp_all

lemma levelIndex_iff:
  "i < priceLevels \<Longrightarrow>
   (levelIndex minPrice priceStep priceLevels c = Some i)
   = (priceStep \<noteq> 0 \<and> \<lfloor>(cl_price c - minPrice) / priceStep\<rfloor> = int i)"
proof (cases "priceStep = 0")
  case True
  then show ?thesis by (simp add: levelIndex_def)
next
  case False
  define z where "z = \<lfloor>(cl_price c - minPrice) / priceStep\<rfloor>"
  assume i: "i < priceLevels"
  have "levelIndex minPrice priceStep priceLevels c
      = (if 0 \<le> z \<and> z < int priceLevels then Some (nat z) else None)"
    using False by (simp add: levelIndex_def Let_def z_def)
  moreover have "((if 0 \<le> z \<and> z < int priceLevels then Some (nat z) else None) = Some i)
      = (z = int i)"
    using i by auto
  ultimately show ?thesis using False by (simp add: z_def)
qed

lemma foldl_addCluster_length [simp]:
  "length (foldl (addCluster minPrice priceStep priceLevels) profile clusters) = length profile"
  by (induction clusters arbitrary: profile) simp_all

lemma addCluster_nth:
  assumes "length profile = priceLevels" and "i < priceLevels"
  shows "addCluster minPrice priceStep priceLevels profile c ! i
       = (if priceStep \<noteq> 0 \<and> \<lfloor>(cl_price c - minPrice) / priceStep\<rfloor> = int i
          then (profile ! i)
                 \<lparr>pf_volume := pf_volume (profile ! i) + cl_volume c,
                  pf_buyVolume := pf_buyVolume (profile ! i) + cl_buyVolume c,
                  pf_sellVolume := pf_sellVolume (profile ! i) + cl_sellVolume c\<rparr>
          else profile ! i)"
proof (cases "levelIndex minPrice priceStep priceLevels c")
  case None
  then have "\<not> (priceStep \<noteq> 0 \<and> \<lfloor>(cl_price c - minPrice) / priceStep\<rfloor> = int i)"
    using levelIndex_iff [OF assms(2), of minPrice priceStep c] by simp
  then show ?thesis using None by (auto simp: addCluster_def)
next
  case (Some j)
  then have j: "j < length profile" using levelIndex_bound assms(1) by blast
  have "(j = i) = (priceStep \<noteq> 0 \<and> \<lfloor>(cl_price c - minPrice) / priceStep\<rfloor> = int i)"
    using levelIndex_iff [OF assms(2), of minPrice priceStep c] Some by auto
  then show ?thesis
    using Some j by (auto simp: addCluster_def nth_list_update)
qed

lemma accumulate_nth:
  assumes "length profile = priceLevels" and "i < priceLevels"
  shows "pf_price (foldl (addCluster minPrice priceStep priceLevels) profile clusters ! i)
           = pf_price (profile ! i)
       \<and> pf_volume (foldl (addCluster minPrice priceStep priceLevels) profile clusters ! i)
           = pf_volume (profile ! i)
             + sum_list (map cl_volume (bucketClusters minPrice priceStep i clusters))
       \<and> pf_buyVolume (foldl (addCluster minPrice priceStep priceLevels) profile clusters ! i)
           = pf_buyVolume (profile ! i)
             + sum_list (map cl_buyVolume (bucketClusters minPrice priceStep i clusters))
       \<and> pf_sellVolume (foldl (addCluster minPrice priceStep priceLevels) profile clusters ! i)
           = pf_sellVolume (profile ! i)
             + sum_list (map cl_sellVolume (bucketClusters minPrice priceStep i clusters))"
  using assms(1)
proof (induction clusters arbitrary: profile)
  case Nil
  then show ?case by (simp add: bucketClusters_def)
next
  case (Cons c cs)
  have len: "length (addCluster minPrice priceStep priceLevels profile c) = priceLevels"
    using Cons.prems by simp
  show ?case
    using Cons.IH [OF len] addCluster_nth [OF Cons.prems assms(2), of minPrice priceStep c]
    by (simp add: bucketClusters_def)
qed

lemma profile_buckets:
  assumes "candles \<noteq> []"
  shows "generateVolumeProfile candles priceLevels
       = filter (\<lambda>level. pf_volume level > 0)
           (map (bucketLevel (minOf (map cd_low candles))
                   ((maxOf (map cd_high candles) - minOf (map cd_low candles)) / real priceLevels)
                   (concat (map cd_clusters candles)))
              [0 ..< priceLevels])"
proof -
  define minPrice where "minPrice = minOf (map cd_low candles)"
  define priceStep where
    "priceStep = (maxOf (map cd_high candles) - minOf (map cd_low candles)) / real priceLevels"
  define clusters where "clusters = concat (map cd_clusters candles)"
  define empty where "empty = map (\<lambda>i. \<lparr>pf_price = minPrice + priceStep * real i + priceStep / 2,
                                   pf_volume = 0, pf_buyVolume = 0, pf_sellVolume = 0\<rparr>)
                           [0 ..< priceLevels]"
  define profile where "profile = foldl (addCluster minPrice priceStep priceLevels) empty clusters"
  have res: "generateVolumeProfile candles priceLevels = filter (\<lambda>level. pf_volume level > 0) profile"
    using assms
    by (simp add: generateVolumeProfile_def Let_def minPrice_def priceStep_def
        empty_def profile_def clusters_def foldl_clusters_concat)
  have e1: "length empty = priceLevels" by (simp add: empty_def)
  have "profile = map (bucketLevel minPrice priceStep clusters) [0 ..< priceLevels]"
  proof (rule nth_equalityI)
    show "length profile = length (map (bucketLevel minPrice priceStep clusters) [0 ..< priceLevels])"
      by (simp add: profile_def e1)
  next
    fix i
    assume "i < length profile"
    then have i: "i < priceLevels" by (simp add: profile_def e1)
    have e: "empty ! i = \<lparr>pf_price = minPrice + priceStep * real i + priceStep / 2,
                           pf_volume = 0, pf_buyVolume = 0, pf_sellVolume = 0\<rparr>"
      using i by (simp add: empty_def)
    show "profile ! i = map (bucketLevel minPrice priceStep clusters) [0 ..< priceLevels] ! i"
      using accumulate_nth [OF e1 i, of minPrice priceStep clusters] i
      by (intro ProfileLevel.equality) (simp_all add: profile_def e bucketLevel_def)
  qed
  then show ?thesis
    unfolding res minPrice_def priceStep_def clusters_def by simp
qed

lemma accumulated_levelIndex:
  "filter (\<lambda>c. levelIndex minPrice priceStep priceLevels c \<noteq> None) clusters
   = accumulatedClusters minPrice priceStep priceLevels clusters"
  unfolding accumulatedClusters_def
  by (rule filter_cong) (auto simp: levelIndex_def Let_def)

text \<open>
  C6 (as amended). For every non-empty candle list, \<open>generateVolumeProfile\<close> divides
  \<open>[min low, max high]\<close> into \<open>priceLevels\<close> buckets of equal width; bucket \<open>i\<close> has the price
  \<open>min + step * i + step / 2\<close> and holds the volume, buy volume and sell volume of exactly the
  clusters whose index \<open>floor((price - min) / step)\<close> is \<open>i\<close>. A cluster whose index is outside
  \<open>[0, priceLevels)\<close> is skipped, not clamped. Buckets without positive volume are dropped,
  the others are returned in index order. When no cluster volume is negative, the returned
  bucket volumes sum to the volumes of the clusters with an index in range; they sum to the
  volumes of all clusters when every cluster price lies in \<open>[min, max)\<close>.
\<close>

theorem generateVolumeProfile_sum:
  assumes "candles \<noteq> []"
  shows "(let minPrice = minOf (map cd_low candles);
              maxPrice = maxOf (map cd_high candles);
              priceStep = (maxPrice - minPrice) / real priceLevels;
              clusters = concat (map cd_clusters candles);
              result = generateVolumeProfile candles priceLevels
          in result = filter (\<lambda>level. pf_volume level > 0)
                        (map (bucketLevel minPrice priceStep clusters) [0 ..< priceLevels])
             \<and> ((\<forall>c \<in> set clusters. 0 \<le> cl_volume c) \<longrightarrow>
                  sum_list (map pf_volume result)
                    = sum_list (map cl_volume
                        (accumulatedClusters minPrice priceStep priceLevels clusters))
                  \<and> (minPrice < maxPrice \<and> priceLevels > 0
                       \<and> (\<forall>c \<in> set clusters. minPrice \<le> cl_price c \<and> cl_price c < maxPrice)
                     \<longrightarrow> sum_list (map pf_volume result) = sum_list (map cl_volume clusters))))"
proof -
  have buckets: "generateVolumeProfile candles priceLevels
       = filter (\<lambda>level. pf_volume level > 0)
           (map (bucketLevel (minOf (map cd_low candles))
                   ((maxOf (map cd_high candles) - minOf (map cd_low candles)) / real priceLevels)
                   (concat (map cd_clusters candles)))
              [0 ..< priceLevels])"
    by (rule profile_buckets [OF assms])
  have sums: "sum_list (map pf_volume (generateVolumeProfile candles priceLevels))
        = sum_list (map cl_volume
            (accumulatedClusters (minOf (map cd_low candles))
               ((maxOf (map cd_high candles) - minOf (map cd_low candles)) / real priceLevels)
               priceLevels (concat (map cd_clusters candles))))
      \<and> (minOf (map cd_low candles) < maxOf (map cd_high candles) \<and> priceLevels > 0
           \<and> (\<forall>c \<in> set (concat (map cd_clusters candles)).
                 minOf (map cd_low candles) \<le> cl_price c \<and> cl_price c < maxOf (map cd_high candles))
         \<longrightarrow> sum_list (map pf_volume (generateVolumeProfile candles priceLevels))
               = sum_list (map cl_volume (concat (map cd_clusters candles))))"
    if "\<forall>c \<in> set (concat (map cd_clusters candles)). 0 \<le> cl_volume c"
    using profile_volume_sum [OF assms that, of priceLevels]
    unfolding Let_def accumulated_levelIndex by blast
  show ?thesis
    unfolding Let_def using buckets sums by blast
qed

theorem generateVolumeProfile_sum_witness:
  "generateVolumeProfile [innerCandle] 5
     = [\<lparr>pf_price = 15, pf_volume = 7, pf_buyVolume = 5, pf_sellVolume = 2\<rparr>,
        \<lparr>pf_price = 35, pf_volume = 10, pf_buyVolume = 5, pf_sellVolume = 5\<rparr>]
   \<and> sum_list (map pf_volume (generateVolumeProfile [innerCandle] 5)) = 17
   \<and> sum_list (map pf_volume (generateVolumeProfile [edgeCandle] 5)) = 7"
proof -
  have a: "[edgeCandle] \<noteq> []" and a': "[innerCandle] \<noteq> []" by simp_all
  have b: "\<forall>c \<in> set (concat (map cd_clusters [edgeCandle])). 0 \<le> cl_volume c"
    and b': "\<forall>c \<in> set (concat (map cd_clusters [innerCandle])). 0 \<le> cl_volume c"
    by (simp_all add: edgeCandle_def innerCandle_def)
  have c: "sum_list (map cl_volume
      (accumulatedClusters (minOf (map cd_low [edgeCandle]))
         ((maxOf (map cd_high [edgeCandle]) - minOf (map cd_low [edgeCandle])) / real 5) 5
         (concat (map cd_clusters [edgeCandle])))) = 7"
    by (simp add: accumulatedClusters_def edgeCandle_def minOf_def maxOf_def)
  have d: "minOf (map cd_low [innerCandle]) < maxOf (map cd_high [innerCandle]) \<and> (5::nat) > 0
      \<and> (\<forall>c \<in> set (concat (map cd_clusters [innerCandle])).
            minOf (map cd_low [innerCandle]) \<le> cl_price c
            \<and> cl_price c < maxOf (map cd_high [innerCandle]))"
    by (simp add: innerCandle_def minOf_def maxOf_def)
  have e: "sum_list (map cl_volume (concat (map cd_clusters [innerCandle]))) = 17"
    by (simp add: innerCandle_def)
  have f: "filter (\<lambda>level. pf_volume level > 0)
      (map (bucketLevel (minOf (map cd_low [innerCandle]))
              ((maxOf (map cd_high [innerCandle]) - minOf (map cd_low [innerCandle])) / real 5)
              (concat (map cd_clusters [innerCandle]))) [0 ..< 5])
      = [\<lparr>pf_price = 15, pf_volume = 7, pf_buyVolume = 5, pf_sellVolume = 2\<rparr>,
         \<lparr>pf_price = 35, pf_volume = 10, pf_buyVolume = 5, pf_sellVolume = 5\<rparr>]"
    by (simp add: bucketLevel_def bucketClusters_def innerCandle_def minOf_def maxOf_def upt_rec)
  have inner: "generateVolumeProfile [innerCandle] 5
     = [\<lparr>pf_price = 15, pf_volume = 7, pf_buyVolume = 5, pf_sellVolume = 2\<rparr>,
        \<lparr>pf_price = 35, pf_volume = 10, pf_buyVolume = 5, pf_sellVolume = 5\<rparr>]
     \<and> sum_list (map pf_volume (generateVolumeProfile [innerCandle] 5)) = 17"
    using generateVolumeProfile_sum [OF a', of 5] b' d e f unfolding Let_def by auto
  have edge: "sum_list (map pf_volume (generateVolumeProfile [edgeCandle] 5)) = 7"
    using generateVolumeProfile_sum [OF a, of 5] b c unfolding Let_def by auto
  show ?thesis using inner edge by simp
qed

text \<open>The cluster at price 50, the maximum, has index 5 of 5 buckets and is left out: the
  profile holds 7 of the 17 units of cluster volume.\<close>

theorem generateVolumeProfile_drops_edge:
  "generateVolumeProfile [edgeCandle] 5
     = [\<lparr>pf_price = 15, pf_volume = 7, pf_buyVolume = 5, pf_sellVolume = 2\<rparr>]
   \<and> sum_list (map cl_volume (cd_clusters edgeCandle)) = 17
   \<and> minOf (map cd_low [edgeCandle]) = 0 \<and> maxOf (map cd_high [edgeCandle]) = 50"
  by (simp add: generateVolumeProfile_def edgeCandle_def minOf_def maxOf_def Let_def
      addCluster_def levelIndex_def upt_rec)


section \<open>Adaptive clusters\<close>

lemma sum_list_sort_key:
  "sum_list (map g (sort_key f xs)) = sum_list (map g xs)" for g :: "'a \<Rightarrow> real"
proof -
  have "mset (map g (sort_key f xs)) = mset (map g xs)" by simp
  then show ?thesis by (metis sum_mset_sum_list)
qed

lemma optimalClusters_range:
  assumes "baseClusterSize \<noteq> 0"
  shows "5 \<le> optimalClusters priceRange baseClusterSize
       \<and> optimalClusters priceRange baseClusterSize \<le> 25"
proof -
  define z where "z = \<lfloor>priceRange / baseClusterSize\<rfloor>"
  have "5 \<le> max 5 (min 25 z)" and "max 5 (min 25 z) \<le> 25" by auto
  then have "5 \<le> nat (max 5 (min 25 z))" and "nat (max 5 (min 25 z)) \<le> 25" by linarith+
  then show ?thesis using assms by (simp add: optimalClusters_def z_def)
qed

lemma adaptive_volumes_sum:
  "sum_list (map cl_volume
     (generateAdaptiveClusters low high totalVolume totalBuyVolume totalSellVolume atr cur rnd))
   = sum_list (map (\<lambda>i. cl_volume (adaptiveCluster low high totalVolume totalBuyVolume cur
                        (optimalClusters (high - low) (atr * 0.5)) rnd i))
        [0 ..< optimalClusters (high - low) (atr * 0.5)])"
  by (simp add: generateAdaptiveClusters_def Let_def sum_list_sort_key comp_def)

lemma adaptive_length:
  "length (generateAdaptiveClusters low high totalVolume totalBuyVolume totalSellVolume atr cur rnd)
   = optimalClusters (high - low) (atr * 0.5)"
  by (simp add: generateAdaptiveClusters_def Let_def)

lemma cluster_volume_eq:
  "cl_volume (adaptiveCluster low high totalVolume totalBuyVolume cur n rnd i)
   = (totalVolume / real n) *
     ((1 / (1 + \<bar>low + (high - low) / real n * real i + (high - low) / real n / 2 - cur\<bar>
               / cur) * 0.6
       + (1 - \<bar>low + (high - low) / real n * real i + (high - low) / real n / 2 - (high + low) / 2\<bar>
               / ((high - low) / 2)) * 0.4)
      * (0.7 + rnd (2 * i) * 0.6))"
  unfolding adaptiveCluster_def Let_def Cluster.select_convs ..

lemma middle_weight_range:
  assumes "low < high" and "i < n"
  shows "0 < 1 - \<bar>low + (high - low) / real n * real i + (high - low) / real n / 2 - (high + low) / 2\<bar>
                 / ((high - low) / 2)"
    and "1 - \<bar>low + (high - low) / real n * real i + (high - low) / real n / 2 - (high + low) / 2\<bar>
                 / ((high - low) / 2) \<le> 1"
proof -
  define r where "r = high - low"
  define x where "x = (real i + 1 / 2) / real n"
  have r: "0 < r" using assms(1) by (simp add: r_def)
  have n: "0 < real n" using assms(2) by simp
  have x0: "0 < x" unfolding x_def using n by simp
  have "real i + 1 / 2 < real n" using assms(2) by (simp add: nat_less_real_le)
  then have x1: "x < 1" unfolding x_def using n by simp
  have "low + (high - low) / real n * real i + (high - low) / real n / 2 - (high + low) / 2
      = r * (x - 1 / 2)"
    using n by (simp add: r_def x_def field_simps)
  then have eq: "\<bar>low + (high - low) / real n * real i + (high - low) / real n / 2 - (high + low) / 2\<bar>
      / ((high - low) / 2) = 2 * \<bar>x - 1 / 2\<bar>"
    using r by (simp add: r_def [symmetric] abs_mult)
  show "0 < 1 - \<bar>low + (high - low) / real n * real i + (high - low) / real n / 2 - (high + low) / 2\<bar>
                 / ((high - low) / 2)"
    unfolding eq using x0 x1 by (simp add: abs_if)
  show "1 - \<bar>low + (high - low) / real n * real i + (high - low) / real n / 2 - (high + low) / 2\<bar>
                 / ((high - low) / 2) \<le> 1"
    unfolding eq by simp
qed

lemma current_weight_range:
  fixes cur p :: real
  assumes "0 < cur"
  shows "0 < 1 / (1 + \<bar>p - cur\<bar> / cur)"
    and "1 / (1 + \<bar>p - cur\<bar> / cur) \<le> 1"
proof -
  have "0 \<le> \<bar>p - cur\<bar> / cur" using assms by simp
  then have d: "1 \<le> 1 + \<bar>p - cur\<bar> / cur" by simp
  then show "0 < 1 / (1 + \<bar>p - cur\<bar> / cur)" by simp
  show "1 / (1 + \<bar>p - cur\<bar> / cur) \<le> 1"
    using d by (simp add: divide_le_eq_1)
qed

lemma cluster_volume_range:
  assumes "low < high" and "0 < totalVolume" and "0 < cur" and "unit_draws rnd" and "i < n"
  shows "0 < cl_volume (adaptiveCluster low high totalVolume totalBuyVolume cur n rnd i)"
    and "cl_volume (adaptiveCluster low high totalVolume totalBuyVolume cur n rnd i)
         < 1.3 * totalVolume / real n"
proof -
  define cw where "cw = 1 / (1 + \<bar>low + (high - low) / real n * real i + (high - low) / real n / 2 - cur\<bar>
               / cur)"
  define mw where "mw = 1 - \<bar>low + (high - low) / real n * real i + (high - low) / real n / 2 - (high + low) / 2\<bar>
               / ((high - low) / 2)"
  define m where "m = 0.7 + rnd (2 * i) * 0.6"
  define share where "share = totalVolume / real n"
  have vol: "cl_volume (adaptiveCluster low high totalVolume totalBuyVolume cur n rnd i)
      = share * ((cw * 0.6 + mw * 0.4) * m)"
    unfolding cluster_volume_eq cw_def mw_def m_def share_def ..
  have cw: "0 < cw" "cw \<le> 1" unfolding cw_def using current_weight_range [OF assms(3)] by auto
  have mw: "0 < mw" "mw \<le> 1" unfolding mw_def using middle_weight_range [OF assms(1,5)] by auto
  have m: "0.7 \<le> m" "m < 1.3" using assms(4) by (auto simp: m_def unit_draws_def)
  have share: "0 < share" using assms(2,5) by (simp add: share_def)
  have imp: "0 < cw * 0.6 + mw * 0.4" "cw * 0.6 + mw * 0.4 \<le> 1" using cw mw by auto
  have lo: "0 < (cw * 0.6 + mw * 0.4) * m" using imp(1) m(1) by simp
  have "(cw * 0.6 + mw * 0.4) * m \<le> 1 * m" using imp(2) m(1) by (intro mult_right_mono) auto
  then have hi: "(cw * 0.6 + mw * 0.4) * m < 1.3" using m(2) by simp
  show "0 < cl_volume (adaptiveCluster low high totalVolume totalBuyVolume cur n rnd i)"
    unfolding vol using share lo by simp
  have "share * ((cw * 0.6 + mw * 0.4) * m) < share * 1.3"
    using hi share by (rule mult_strict_left_mono)
  then show "cl_volume (adaptiveCluster low high totalVolume totalBuyVolume cur n rnd i)
         < 1.3 * totalVolume / real n"
    unfolding vol by (simp add: share_def mult.commute)
qed

lemma sum_list_between:
  fixes f :: "'a \<Rightarrow> real"
  assumes "xs \<noteq> []" and "\<forall>x \<in> set xs. 0 < f x \<and> f x < b"
  shows "0 < sum_list (map f xs) \<and> sum_list (map f xs) < real (length xs) * b"
  using assms
proof (induction xs)
  case Nil
  then show ?case by simp
next
  case (Cons x xs)
  show ?case
  proof (cases "xs = []")
    case True
    then show ?thesis using Cons.prems by simp
  next
    case False
    then have "0 < sum_list (map f xs) \<and> sum_list (map f xs) < real (length xs) * b"
      using Cons by simp
    moreover have "0 < f x \<and> f x < b" using Cons.prems by simp
    ultimately show ?thesis by (simp add: algebra_simps)
  qed
qed

lemma cluster_price_eq:
  "cl_price (adaptiveCluster low high totalVolume totalBuyVolume cur n rnd i) = clusterPrice low high n i"
  unfolding adaptiveCluster_def Let_def Cluster.select_convs clusterPrice_def ..

lemma cluster_allocation:
  "cl_volume (adaptiveCluster low high totalVolume totalBuyVolume cur n rnd i)
   = totalVolume / real n * clusterImportance low high cur n i * allocationMultiplier rnd i"
  unfolding cluster_volume_eq clusterImportance_def clusterPrice_def allocationMultiplier_def
  by (simp only: mult.assoc)

lemma importance_range:
  assumes "low < high" and "0 < cur" and "i < n"
  shows "0 < clusterImportance low high cur n i" and "clusterImportance low high cur n i \<le> 1"
proof -
  define cw where "cw = 1 / (1 + \<bar>clusterPrice low high n i - cur\<bar> / cur)"
  define mw where "mw = 1 - \<bar>clusterPrice low high n i - (high + low) / 2\<bar> / ((high - low) / 2)"
  have cw: "0 < cw" "cw \<le> 1" unfolding cw_def using current_weight_range [OF assms(2)] by auto
  have mw: "0 < mw" "mw \<le> 1"
    unfolding mw_def clusterPrice_def using middle_weight_range [OF assms(1,3)] by auto
  have imp: "clusterImportance low high cur n i = cw * 0.6 + mw * 0.4"
    by (simp add: clusterImportance_def cw_def mw_def)
  show "0 < clusterImportance low high cur n i" unfolding imp using cw mw by auto
  show "clusterImportance low high cur n i \<le> 1" unfolding imp using cw mw by auto
qed

lemma multiplier_range:
  "unit_draws rnd \<Longrightarrow> 0.7 \<le> allocationMultiplier rnd i \<and> allocationMultiplier rnd i < 1.3"
  by (auto simp: allocationMultiplier_def unit_draws_def)

lemma adaptive_levels:
  "mset (map (\<lambda>c. (cl_price c, cl_volume c))
       (generateAdaptiveClusters low high totalVolume totalBuyVolume totalSellVolume atr cur rnd))
   = mset (map (\<lambda>i. (clusterPrice low high (optimalClusters (high - low) (atr * 0.5)) i,
                      totalVolume / real (optimalClusters (high - low) (atr * 0.5))
                        * clusterImportance low high cur (optimalClusters (high - low) (atr * 0.5)) i
                        * allocationMultiplier rnd i))
        [0 ..< optimalClusters (high - low) (atr * 0.5)])"
proof -
  define n where "n = optimalClusters (high - low) (atr * 0.5)"
  have "mset (map (\<lambda>c. (cl_price c, cl_volume c))
       (generateAdaptiveClusters low high totalVolume totalBuyVolume totalSellVolume atr cur rnd))
      = mset (map (\<lambda>c. (cl_price c, cl_volume c))
          (map (adaptiveCluster low high totalVolume totalBuyVolume cur n rnd) [0 ..< n]))"
    unfolding generateAdaptiveClusters_def Let_def n_def by (simp only: mset_map mset_sort)
  also have "map (\<lambda>c. (cl_price c, cl_volume c))
          (map (adaptiveCluster low high totalVolume totalBuyVolume cur n rnd) [0 ..< n])
      = map (\<lambda>i. (clusterPrice low high n i,
                    totalVolume / real n * clusterImportance low high cur n i
                      * allocationMultiplier rnd i)) [0 ..< n]"
    by (simp only: map_map o_def cluster_price_eq cluster_allocation)
  finally show ?thesis unfolding n_def .
qed

lemma adaptive_sorted:
  "sorted_wrt (\<lambda>a b. a \<ge> b) (map cl_volume
     (generateAdaptiveClusters low high totalVolume totalBuyVolume totalSellVolume atr cur rnd))"
  by (simp add: generateAdaptiveClusters_def Let_def sorted_desc_sort_key)

text \<open>
  C4 (as amended). For every cluster set made by \<open>generateAdaptiveClusters\<close> (any
  \<open>low < high\<close>, \<open>totalVolume > 0\<close>, \<open>atr > 0\<close>, a current price above 0, any draws from
  \<open>[0,1)\<close>) there are \<open>n\<close> clusters with \<open>5 \<le> n \<le> 25\<close>, and the cluster at price level \<open>i\<close>
  has the volume \<open>totalVolume / n\<close> times its importance times its multiplier, where the
  importance lies in \<open>(0, 1]\<close> and the multiplier in \<open>[0.7, 1.3)\<close>. The clusters are in
  non-increasing order of volume. The volumes are not normalised: their sum lies strictly
  between 0 and \<open>1.3 * totalVolume\<close> and need not be close to \<open>totalVolume\<close>.
\<close>

theorem generateAdaptiveClusters_volume_bounds:
  assumes "low < high" and "0 < totalVolume" and "0 < atr" and "0 < cur" and "unit_draws rnd"
  shows "(let n = optimalClusters (high - low) (atr * 0.5);
              clusters = generateAdaptiveClusters low high totalVolume totalBuyVolume totalSellVolume
                            atr cur rnd
          in 5 \<le> n \<and> n \<le> 25 \<and> length clusters = n
             \<and> mset (map (\<lambda>c. (cl_price c, cl_volume c)) clusters)
                 = mset (map (\<lambda>i. (clusterPrice low high n i,
                                    totalVolume / real n * clusterImportance low high cur n i
                                      * allocationMultiplier rnd i)) [0 ..< n])
             \<and> (\<forall>i < n. 0 < clusterImportance low high cur n i
                        \<and> clusterImportance low high cur n i \<le> 1
                        \<and> 0.7 \<le> allocationMultiplier rnd i \<and> allocationMultiplier rnd i < 1.3)
             \<and> sorted_wrt (\<lambda>a b. a \<ge> b) (map cl_volume clusters)
             \<and> 0 < sum_list (map cl_volume clusters)
             \<and> sum_list (map cl_volume clusters) < 1.3 * totalVolume)"
proof -
  define n where "n = optimalClusters (high - low) (atr * 0.5)"
  have n: "5 \<le> n" "n \<le> 25" using optimalClusters_range [of "atr * 0.5" "high - low"] assms(3)
    by (simp_all add: n_def)
  have ne: "[0 ..< n] \<noteq> []" using n by simp
  have each: "\<forall>i \<in> set [0 ..< n].
      0 < cl_volume (adaptiveCluster low high totalVolume totalBuyVolume cur n rnd i)
      \<and> cl_volume (adaptiveCluster low high totalVolume totalBuyVolume cur n rnd i)
          < 1.3 * totalVolume / real n"
    using cluster_volume_range [OF assms(1,2,4,5)] by simp
  note b = sum_list_between [OF ne each]
  have "real (length [0 ..< n]) * (1.3 * totalVolume / real n) = 1.3 * totalVolume"
    using n by simp
  then have s: "0 < sum_list (map (\<lambda>i. cl_volume (adaptiveCluster low high totalVolume totalBuyVolume
                     cur n rnd i)) [0 ..< n])"
    "sum_list (map (\<lambda>i. cl_volume (adaptiveCluster low high totalVolume totalBuyVolume
                     cur n rnd i)) [0 ..< n]) < 1.3 * totalVolume"
    using b by simp_all
  have ranges: "\<forall>i < n. 0 < clusterImportance low high cur n i
                        \<and> clusterImportance low high cur n i \<le> 1
                        \<and> 0.7 \<le> allocationMultiplier rnd i \<and> allocationMultiplier rnd i < 1.3"
    using importance_range [OF assms(1,4)] multiplier_range [OF assms(5)] by blast
  show ?thesis
    unfolding Let_def n_def [symmetric]
    using s n ranges adaptive_sorted [of low high totalVolume totalBuyVolume totalSellVolume atr cur rnd]
      adaptive_levels [of low high totalVolume totalBuyVolume totalSellVolume atr cur rnd]
      adaptive_volumes_sum [of low high totalVolume totalBuyVolume totalSellVolume atr cur rnd]
      adaptive_length [of low high totalVolume totalBuyVolume totalSellVolume atr cur rnd]
    unfolding n_def [symmetric]
    by simp
qed

lemma five_clusters: "optimalClusters (10 - 0) (10 * 0.5) = 5"
  by (simp add: optimalClusters_def)

text \<open>Five clusters over \<open>[0, 10]\<close> for a total volume of 100, with every draw 0: the
  cluster volumes sum to 44.29.\<close>

theorem generateAdaptiveClusters_volume_short:
  "sum_list (map cl_volume (generateAdaptiveClusters 0 10 100 50 50 10 5 zeroDraws)) = 3322 / 75
   \<and> (3322 / 75 :: real) < 45"
  unfolding adaptive_volumes_sum five_clusters
  by (simp add: cluster_volume_eq zeroDraws_def upt_rec)

theorem generateAdaptiveClusters_volume_bounds_witness:
  "5 \<le> length (generateAdaptiveClusters 0 10 100 50 50 10 5 zeroDraws)
   \<and> length (generateAdaptiveClusters 0 10 100 50 50 10 5 zeroDraws) \<le> 25
   \<and> 0 < sum_list (map cl_volume (generateAdaptiveClusters 0 10 100 50 50 10 5 zeroDraws))
   \<and> sum_list (map cl_volume (generateAdaptiveClusters 0 10 100 50 50 10 5 zeroDraws)) < 1.3 * 100
   \<and> 0 < clusterImportance 0 10 5 (optimalClusters (10 - 0) (10 * 0.5)) 2
   \<and> allocationMultiplier zeroDraws 2 < 1.3
   \<and> sorted_wrt (\<lambda>a b. a \<ge> b)
        (map cl_volume (generateAdaptiveClusters 0 10 100 50 50 10 5 zeroDraws))"
proof -
  have h: "(0::real) < 10" "(0::real) < 100" "(0::real) < 5" by simp_all
  have u: "unit_draws zeroDraws" by (simp add: unit_draws_def zeroDraws_def)
  have i: "(2::nat) < optimalClusters (10 - 0) (10 * 0.5)" unfolding five_clusters by simp
  show ?thesis
    using generateAdaptiveClusters_volume_bounds [OF h(1) h(2) h(1) h(3) u, of 50 50] i unfolding Let_def by force
qed


end
